theory Spec2Isabelle
  imports Main "HOL-Library.Word"
begin

unbundle bit_operations_syntax

section \<open>Shared vocabulary of the joypad drivers\<close>

text \<open>
  The three drivers (Apple/iOS, XInput, DirectInput) implement one driver table:
  init, query_pad, destroy, button, axis, poll, set_rumble, name.  Pad indices are
  C \<^verbatim>\<open>unsigned\<close> values that are only compared and used as array indices, so they are
  natural numbers here.  Key codes are \<^verbatim>\<open>uint16_t\<close>, axis codes \<^verbatim>\<open>uint32_t\<close>, axis values
  \<^verbatim>\<open>int16_t\<close> (read with \<open>sint\<close>).

  An array access outside the declared bounds is undefined behaviour in C.  The model
  makes it a value: a function that indexes an array returns \<open>fault + 'a\<close> and
  \<open>Inl OutOfBoundsAccess\<close> stands for the access the C code would perform outside
  the array.
\<close>

datatype fault = OutOfBoundsAccess

definition array_get :: "'a list \<Rightarrow> nat \<Rightarrow> fault + 'a" where
  "array_get xs i = (if i < length xs then Inr (xs ! i) else Inl OutOfBoundsAccess)"

text \<open>
  \<^verbatim>\<open>enum retro_rumble_effect\<close> of the libretro interface: the two motors and the
  enumeration's sentinel.
\<close>

datatype retro_rumble_effect = RETRO_RUMBLE_STRONG | RETRO_RUMBLE_WEAK | RETRO_RUMBLE_DUMMY

text \<open>
  The macros \<^verbatim>\<open>NO_BTN\<close>, \<^verbatim>\<open>AXIS_NONE\<close>, \<^verbatim>\<open>GET_HAT_DIR\<close>, \<^verbatim>\<open>AXIS_NEG_GET\<close> and
  \<^verbatim>\<open>AXIS_POS_GET\<close> come from a header that is not part of the sources at hand.  The
  driver functions take them as a parameter.  \<open>retroarch_macros\<close> is the customary
  encoding (a 16-bit key code whose upper four bits name a hat direction; a 32-bit
  axis code whose upper half is the negative and whose lower half is the positive
  axis index, \<open>0xFFFF\<close> meaning "none"); it is only used to evaluate the functions at
  concrete inputs.
\<close>

record input_macros =
  NO_BTN :: "16 word"
  AXIS_NONE :: "32 word"
  GET_HAT_DIR :: "16 word \<Rightarrow> 16 word"
  AXIS_NEG_GET :: "32 word \<Rightarrow> 32 word"
  AXIS_POS_GET :: "32 word \<Rightarrow> 32 word"

definition retroarch_macros :: input_macros where
  "retroarch_macros =
     \<lparr> NO_BTN = 0xFFFF,
       AXIS_NONE = 0xFFFFFFFF,
       GET_HAT_DIR = (\<lambda>x. x AND 0xF000),
       AXIS_NEG_GET = (\<lambda>x. drop_bit 16 x AND 0xFFFF),
       AXIS_POS_GET = (\<lambda>x. x AND 0xFFFF) \<rparr>"

section \<open>The Apple driver: slot registry and dispatcher\<close>

subsection \<open>Data\<close>

text \<open>
  \<^verbatim>\<open>joypad_slot_t\<close>: \<open>iface\<close> points to one of the two interface tables named in
  \<^verbatim>\<open>pad_map\<close> or is NULL, \<open>data\<close> is the backend's opaque device handle or NULL.
  \<^verbatim>\<open>memset(&slot, 0, sizeof slot)\<close> yields \<open>zero_slot\<close>.
\<close>

datatype iface_ref = apple_pad_wii | apple_pad_ps3

record joypad_slot_t =
  used :: bool
  iface :: "iface_ref option"
  data :: "nat option"
  is_gcapi :: bool

definition zero_slot :: joypad_slot_t where
  "zero_slot = \<lparr> used = False, iface = None, data = None, is_gcapi = False \<rparr>"

text \<open>
  \<^verbatim>\<open>struct pad_connection_interface\<close> is a table of function pointers.  Its two instances
  live outside the sources at hand, so the model takes the table of tables as a
  parameter \<open>ifaces\<close>.  \<open>connect\<close> is called without a NULL test by the source and
  is a function from the connection and the slot index to the new device handle;
  for the members the source tests against NULL before calling, the field says
  whether the member is set.  What a backend does when called is outside the driver:
  every call is recorded, in order, in a list of \<open>backend_call\<close>.
\<close>

record pad_connection_interface =
  connect :: "nat \<Rightarrow> nat \<Rightarrow> nat option"
  disconnect :: bool
  packet_handler :: bool
  set_rumble :: bool

datatype backend_call =
    Connect_call iface_ref nat nat
  | Disconnect_call iface_ref nat
  | Set_rumble_call iface_ref "nat option" retro_rumble_effect "16 word"

text \<open>
  \<^verbatim>\<open>apple_input_data_t\<close> (declared outside the sources at hand): the cached button
  bitmask and the four axis values per pad that the button and axis queries read.
\<close>

record apple_input_data_t =
  buttons :: "32 word list"
  axes :: "16 word list list"

subsection \<open>Slot registry\<close>

text \<open>
  \<^verbatim>\<open>find_vacant_pad\<close>: the loop over \<open>i = 0 ..< MAX_PLAYERS\<close>, started at \<open>i\<close>.
  The registry \<open>slots\<close> is the static array of \<open>MAX_PLAYERS\<close> slots.
\<close>

function find_vacant_pad_from :: "nat \<Rightarrow> nat \<Rightarrow> joypad_slot_t list \<Rightarrow> int \<times> joypad_slot_t list" where
  "find_vacant_pad_from MAX_PLAYERS i slots =
     (if i < MAX_PLAYERS then
        (if used (slots ! i) then find_vacant_pad_from MAX_PLAYERS (Suc i) slots
         else (int i, slots[i := zero_slot]))
      else (- 1, slots))"
  by pat_completeness auto
termination
  by (relation "measure (\<lambda>(m, i, s). m - i)") auto

declare find_vacant_pad_from.simps [simp del]

definition find_vacant_pad :: "nat \<Rightarrow> joypad_slot_t list \<Rightarrow> int \<times> joypad_slot_t list" where
  "find_vacant_pad MAX_PLAYERS slots = find_vacant_pad_from MAX_PLAYERS 0 slots"

text \<open>C's \<^verbatim>\<open>strstr(haystack, needle) != NULL\<close>.\<close>

fun is_prefix :: "string \<Rightarrow> string \<Rightarrow> bool" where
  "is_prefix [] ys = True"
| "is_prefix (x # xs) [] = False"
| "is_prefix (x # xs) (y # ys) = (x = y \<and> is_prefix xs ys)"

fun strstr :: "string \<Rightarrow> string \<Rightarrow> bool" where
  "strstr [] needle = (needle = [])"
| "strstr (h # hs) needle = (is_prefix needle (h # hs) \<or> strstr hs needle)"

definition pad_map :: "(string \<times> iface_ref) list" where
  "pad_map = [(''Nintendo RVL-CNT-01'', apple_pad_wii),
              (''PLAYSTATION(R)3 Controller'', apple_pad_ps3)]"

text \<open>
  The loop over \<^verbatim>\<open>pad_map\<close> in \<^verbatim>\<open>joypad_connection_connect\<close>: every entry whose name
  occurs in the device name sets the interface and calls its \<open>connect\<close>; there is no
  \<^verbatim>\<open>break\<close>.
\<close>

fun pad_map_loop ::
  "(iface_ref \<Rightarrow> pad_connection_interface) \<Rightarrow> string \<Rightarrow> nat \<Rightarrow> nat \<Rightarrow>
   (string \<times> iface_ref) list \<Rightarrow> joypad_slot_t \<times> backend_call list \<Rightarrow>
   joypad_slot_t \<times> backend_call list" where
  "pad_map_loop ifaces name connection pad [] acc = acc"
| "pad_map_loop ifaces name connection pad ((n, r) # es) (s, calls) =
     (if strstr name n
      then pad_map_loop ifaces name connection pad es
             (s\<lparr> iface := Some r, data := connect (ifaces r) connection pad \<rparr>,
              calls @ [Connect_call r connection pad])
      else pad_map_loop ifaces name connection pad es (s, calls))"

definition joypad_connection_connect ::
  "(iface_ref \<Rightarrow> pad_connection_interface) \<Rightarrow> nat \<Rightarrow> joypad_slot_t list \<Rightarrow>
   string option \<Rightarrow> nat \<Rightarrow> int \<times> joypad_slot_t list \<times> backend_call list" where
  "joypad_connection_connect ifaces MAX_PLAYERS slots name connection =
     (case find_vacant_pad MAX_PLAYERS slots of
        (pad, slots1) \<Rightarrow>
          if 0 \<le> pad \<and> pad < int MAX_PLAYERS then
            (case (case name of
                     None \<Rightarrow> ((slots1 ! nat pad)\<lparr> used := True \<rparr>, [])
                   | Some n \<Rightarrow>
                       pad_map_loop ifaces n connection (nat pad) pad_map
                         ((slots1 ! nat pad)\<lparr> used := True \<rparr>, [])) of
               (s, calls) \<Rightarrow> (pad, slots1[nat pad := s], calls))
          else (pad, slots1, []))"

definition apple_joypad_connect_gcapi :: "nat \<Rightarrow> joypad_slot_t list \<Rightarrow> int \<times> joypad_slot_t list" where
  "apple_joypad_connect_gcapi MAX_PLAYERS slots =
     (case find_vacant_pad MAX_PLAYERS slots of
        (pad, slots1) \<Rightarrow>
          if 0 \<le> pad \<and> pad < int MAX_PLAYERS
          then (pad, slots1[nat pad := (slots1 ! nat pad)\<lparr> used := True, is_gcapi := True \<rparr>])
          else (pad, slots1))"

text \<open>
  \<^verbatim>\<open>apple_joypad_disconnect\<close>: the guarded call of the interface's \<open>disconnect\<close> member
  on the device handle, then the \<^verbatim>\<open>memset\<close> of the slot.
\<close>

definition disconnect_calls ::
  "(iface_ref \<Rightarrow> pad_connection_interface) \<Rightarrow> joypad_slot_t \<Rightarrow> backend_call list" where
  "disconnect_calls ifaces s =
     (case iface s of
        None \<Rightarrow> []
      | Some r \<Rightarrow>
          (case data s of
             None \<Rightarrow> []
           | Some d \<Rightarrow> if disconnect (ifaces r) then [Disconnect_call r d] else []))"

definition apple_joypad_disconnect ::
  "(iface_ref \<Rightarrow> pad_connection_interface) \<Rightarrow> nat \<Rightarrow> joypad_slot_t list \<Rightarrow> nat \<Rightarrow>
   joypad_slot_t list \<times> backend_call list" where
  "apple_joypad_disconnect ifaces MAX_PLAYERS slots pad =
     (if pad < MAX_PLAYERS \<and> used (slots ! pad)
      then (slots[pad := zero_slot], disconnect_calls ifaces (slots ! pad))
      else (slots, []))"

definition apple_joypad_has_interface :: "nat \<Rightarrow> joypad_slot_t list \<Rightarrow> nat \<Rightarrow> bool" where
  "apple_joypad_has_interface MAX_PLAYERS slots pad =
     (if pad < MAX_PLAYERS \<and> used (slots ! pad) then iface (slots ! pad) \<noteq> None else False)"

subsection \<open>Driver table\<close>

definition apple_joypad_query_pad :: "nat \<Rightarrow> nat \<Rightarrow> bool" where
  "apple_joypad_query_pad MAX_PLAYERS pad = (pad < MAX_PLAYERS)"



definition apple_joypad_button ::
  "input_macros \<Rightarrow> nat \<Rightarrow> apple_input_data_t option \<Rightarrow> nat \<Rightarrow> 16 word \<Rightarrow> fault + bool" where
  "apple_joypad_button M MAX_PLAYERS apple port joykey =
     (case apple of
        None \<Rightarrow> Inr False
      | Some a \<Rightarrow>
          if joykey = NO_BTN M then Inr False
          else if GET_HAT_DIR M joykey \<noteq> 0 then Inr False
          else if port < MAX_PLAYERS \<and> joykey < 32 then
            (case array_get (buttons a) port of
               Inl e \<Rightarrow> Inl e
             | Inr b \<Rightarrow> Inr (b AND push_bit (unat joykey) 1 \<noteq> 0))
          else Inr False)"

definition axes_get :: "apple_input_data_t \<Rightarrow> nat \<Rightarrow> nat \<Rightarrow> fault + 16 word" where
  "axes_get a port k =
     (case array_get (axes a) port of
        Inl e \<Rightarrow> Inl e
      | Inr row \<Rightarrow> array_get row k)"

definition apple_joypad_axis ::
  "input_macros \<Rightarrow> apple_input_data_t option \<Rightarrow> nat \<Rightarrow> 32 word \<Rightarrow> fault + 16 word" where
  "apple_joypad_axis M apple port joyaxis =
     (case apple of
        None \<Rightarrow> Inr 0
      | Some a \<Rightarrow>
          if joyaxis = AXIS_NONE M then Inr 0
          else if AXIS_NEG_GET M joyaxis < 4 then
            (case axes_get a port (unat (AXIS_NEG_GET M joyaxis)) of
               Inl e \<Rightarrow> Inl e
             | Inr val \<Rightarrow> Inr (if sint val < 0 then val else 0))
          else if AXIS_POS_GET M joyaxis < 4 then
            (case axes_get a port (unat (AXIS_POS_GET M joyaxis)) of
               Inl e \<Rightarrow> Inl e
             | Inr val \<Rightarrow> Inr (if 0 < sint val then val else 0))
          else Inr 0)"

definition apple_joypad_rumble ::
  "(iface_ref \<Rightarrow> pad_connection_interface) \<Rightarrow> nat \<Rightarrow> joypad_slot_t list \<Rightarrow> nat \<Rightarrow>
   retro_rumble_effect \<Rightarrow> 16 word \<Rightarrow> bool \<times> joypad_slot_t list \<times> backend_call list" where
  "apple_joypad_rumble ifaces MAX_PLAYERS slots pad effect strength =
     (if pad < MAX_PLAYERS \<and> used (slots ! pad) then
        (case iface (slots ! pad) of
           None \<Rightarrow> (False, slots, [])
         | Some r \<Rightarrow>
             if set_rumble (ifaces r)
             then (True, slots, [Set_rumble_call r (data (slots ! pad)) effect strength])
             else (False, slots, []))
      else (False, slots, []))"

definition apple_joypad_name :: "nat \<Rightarrow> string option" where
  "apple_joypad_name joypad = None"

text \<open>
  The declared shapes of the arrays of \<^verbatim>\<open>apple_input_data_t\<close>: one button word and one
  row of four axis values per pad.
\<close>

definition apple_data_ok :: "nat \<Rightarrow> apple_input_data_t \<Rightarrow> bool" where
  "apple_data_ok MAX_PLAYERS a =
     (length (buttons a) = MAX_PLAYERS \<and> length (axes a) = MAX_PLAYERS
      \<and> (\<forall>row \<in> set (axes a). length row = 4))"

subsection \<open>Concrete inputs\<close>

text \<open>Concrete interface tables, slots and cached input, used to evaluate the driver.\<close>

definition example_ifaces :: "iface_ref \<Rightarrow> pad_connection_interface" where
  "example_ifaces r =
     (case r of
        apple_pad_wii \<Rightarrow>
          \<lparr> connect = (\<lambda>c p. Some (100 + p)), disconnect = True,
            packet_handler = True, set_rumble = True \<rparr>
      | apple_pad_ps3 \<Rightarrow>
          \<lparr> connect = (\<lambda>c p. Some (200 + p)), disconnect = True,
            packet_handler = True, set_rumble = False \<rparr>)"

definition wii_slot :: joypad_slot_t where
  "wii_slot = \<lparr> used = True, iface = Some apple_pad_wii, data = Some 7, is_gcapi = False \<rparr>"

definition ps3_slot :: joypad_slot_t where
  "ps3_slot = \<lparr> used = True, iface = Some apple_pad_ps3, data = Some 9, is_gcapi = False \<rparr>"


definition example_apple :: apple_input_data_t where
  "example_apple = \<lparr> buttons = [1, 0], axes = [[- 5, 7, 0, 0], [3, 0, 0, - 9]] \<rparr>"

section \<open>The XInput driver\<close>

text \<open>
  The static state of \<^verbatim>\<open>xinput_joypad.c\<close>: four cached controller states with their
  \<open>connected\<close> flag, four cached vibration settings and the \<^verbatim>\<open>XInputSetState\<close> entry
  point (a function pointer, NULL before a successful init and after destroy).
  The two \<^verbatim>\<open>extern\<close> variables shared with the DirectInput driver are the record
  \<open>pad_aliasing\<close>, which both driver states extend: the table
  \<^verbatim>\<open>g_xinput_pad_indexes\<close> (entry \<open>-1\<close>: the pad is not an XInput pad; otherwise the XInput
  user number) and the flag \<^verbatim>\<open>g_xinput_block_pads\<close>.
\<close>

record XINPUT_GAMEPAD =
  wButtons :: "16 word"
  bLeftTrigger :: "8 word"
  bRightTrigger :: "8 word"
  sThumbLX :: "16 word"
  sThumbLY :: "16 word"
  sThumbRX :: "16 word"
  sThumbRY :: "16 word"

record XINPUT_STATE =
  dwPacketNumber :: "32 word"
  Gamepad :: XINPUT_GAMEPAD

record xinput_joypad_state =
  xstate :: XINPUT_STATE
  connected :: bool

record XINPUT_VIBRATION =
  wLeftMotorSpeed :: "16 word"
  wRightMotorSpeed :: "16 word"

record pad_aliasing =
  g_xinput_pad_indexes :: "int list"
  g_xinput_block_pads :: bool

record xinput_driver = pad_aliasing +
  g_xinput_states :: "xinput_joypad_state list"
  g_xinput_rumble_states :: "XINPUT_VIBRATION list"
  g_XInputSetState :: "(nat \<Rightarrow> XINPUT_VIBRATION \<Rightarrow> 32 word) option"

text \<open>
  What the build fixes: whether \<^verbatim>\<open>HAVE_DINPUT\<close> is defined, the macro
  \<^verbatim>\<open>DEFAULT_MAX_PADS\<close>, and the members of the DirectInput driver table that the XInput
  driver forwards to.  The forwarded functions are defined in a header that is not
  part of the sources at hand; they are parameters, and \<open>dinput_set_rumble\<close> is
  optional because the source tests the member against NULL.
\<close>

record xinput_build =
  HAVE_DINPUT :: bool
  DEFAULT_MAX_PADS :: nat
  dinput_query_pad :: "nat \<Rightarrow> bool"
  dinput_set_rumble :: "(nat \<Rightarrow> retro_rumble_effect \<Rightarrow> 16 word \<Rightarrow> bool) option"
  dinput_name :: "nat \<Rightarrow> string option"

datatype xinput_call =
    XInputSetState_call nat XINPUT_VIBRATION
  | Dinput_set_rumble_call nat retro_rumble_effect "16 word"

definition pad_index_to_xuser_index :: "xinput_build \<Rightarrow> xinput_driver \<Rightarrow> nat \<Rightarrow> fault + int" where
  "pad_index_to_xuser_index B st pad =
     (if HAVE_DINPUT B then array_get (g_xinput_pad_indexes st) pad
      else if pad < DEFAULT_MAX_PADS B then
        (case array_get (g_xinput_states st) pad of
           Inl e \<Rightarrow> Inl e
         | Inr s \<Rightarrow> Inr (if connected s then int pad else - 1))
      else Inr (- 1))"

definition xuser_get :: "'a list \<Rightarrow> int \<Rightarrow> fault + 'a" where
  "xuser_get xs xuser = (if xuser < 0 then Inl OutOfBoundsAccess else array_get xs (nat xuser))"

definition xinput_joypad_query_pad :: "xinput_build \<Rightarrow> xinput_driver \<Rightarrow> nat \<Rightarrow> fault + bool" where
  "xinput_joypad_query_pad B st pad =
     (case pad_index_to_xuser_index B st pad of
        Inl e \<Rightarrow> Inl e
      | Inr xuser \<Rightarrow>
          if - 1 < xuser then
            (case xuser_get (g_xinput_states st) xuser of
               Inl e \<Rightarrow> Inl e
             | Inr s \<Rightarrow> Inr (connected s))
          else if HAVE_DINPUT B then Inr (dinput_query_pad B pad)
          else Inr False)"

definition set_motor_speed :: "retro_rumble_effect \<Rightarrow> 16 word \<Rightarrow> XINPUT_VIBRATION \<Rightarrow> XINPUT_VIBRATION" where
  "set_motor_speed effect strength v =
     (case effect of
        RETRO_RUMBLE_STRONG \<Rightarrow> v\<lparr> wLeftMotorSpeed := strength \<rparr>
      | RETRO_RUMBLE_WEAK \<Rightarrow> v\<lparr> wRightMotorSpeed := strength \<rparr>
      | RETRO_RUMBLE_DUMMY \<Rightarrow> v)"

definition xinput_joypad_rumble ::
  "xinput_build \<Rightarrow> xinput_driver \<Rightarrow> nat \<Rightarrow> retro_rumble_effect \<Rightarrow> 16 word \<Rightarrow>
   fault + (bool \<times> xinput_driver \<times> xinput_call list)" where
  "xinput_joypad_rumble B st pad effect strength =
     (case pad_index_to_xuser_index B st pad of
        Inl e \<Rightarrow> Inl e
      | Inr xuser \<Rightarrow>
          if xuser = - 1 then
            (if HAVE_DINPUT B then
               (case dinput_set_rumble B of
                  Some f \<Rightarrow>
                    Inr (f pad effect strength, st, [Dinput_set_rumble_call pad effect strength])
                | None \<Rightarrow> Inr (False, st, []))
             else Inr (False, st, []))
          else
            (case xuser_get (g_xinput_rumble_states st) xuser of
               Inl e \<Rightarrow> Inl e
             | Inr v \<Rightarrow>
                 (case g_XInputSetState st of
                    None \<Rightarrow>
                      Inr (False,
                           st\<lparr> g_xinput_rumble_states :=
                                 (g_xinput_rumble_states st)
                                   [nat xuser := set_motor_speed effect strength v] \<rparr>,
                           [])
                  | Some f \<Rightarrow>
                      Inr (f (nat xuser) (set_motor_speed effect strength v) = 0,
                           st\<lparr> g_xinput_rumble_states :=
                                 (g_xinput_rumble_states st)
                                   [nat xuser := set_motor_speed effect strength v] \<rparr>,
                           [XInputSetState_call (nat xuser)
                              (set_motor_speed effect strength v)]))))"

definition zero_xstate :: XINPUT_STATE where
  "zero_xstate =
     \<lparr> dwPacketNumber = 0,
       Gamepad = \<lparr> wButtons = 0, bLeftTrigger = 0, bRightTrigger = 0, sThumbLX = 0,
                   sThumbLY = 0, sThumbRX = 0, sThumbRY = 0 \<rparr> \<rparr>"

definition zero_vibration :: XINPUT_VIBRATION where
  "zero_vibration = \<lparr> wLeftMotorSpeed = 0, wRightMotorSpeed = 0 \<rparr>"

definition example_build :: xinput_build where
  "example_build =
     \<lparr> HAVE_DINPUT = True, DEFAULT_MAX_PADS = 16, dinput_query_pad = (\<lambda>p. False),
       dinput_set_rumble = None, dinput_name = (\<lambda>p. Some ''Controller'') \<rparr>"

definition example_xinput :: xinput_driver where
  "example_xinput =
     \<lparr> g_xinput_pad_indexes = [0, - 1],
       g_xinput_block_pads = True,
       g_xinput_states =
         [\<lparr> xstate = zero_xstate, connected = True \<rparr>,
          \<lparr> xstate = zero_xstate, connected = False \<rparr>,
          \<lparr> xstate = zero_xstate, connected = False \<rparr>,
          \<lparr> xstate = zero_xstate, connected = False \<rparr>],
       g_xinput_rumble_states = [zero_vibration, zero_vibration, zero_vibration, zero_vibration],
       g_XInputSetState = None \<rparr>"

section \<open>The DirectInput driver\<close>

subsection \<open>Device identity\<close>

text \<open>
  A Windows \<^verbatim>\<open>GUID\<close>; a product GUID carries the vendor identifier in the low and the
  product identifier in the high half of \<open>Data1\<close>.  \<^verbatim>\<open>MAKELONG(lo, hi)\<close> is the Windows
  macro that packs two 16-bit values.
\<close>

record GUID =
  Data1 :: "32 word"
  Data2 :: "16 word"
  Data3 :: "16 word"
  Data4 :: "8 word list"

definition MAKELONG :: "32 word \<Rightarrow> 32 word \<Rightarrow> 32 word" where
  "MAKELONG lo hi = (lo AND 0xFFFF) OR push_bit 16 (hi AND 0xFFFF)"

definition common_xinput_guids :: "GUID list" where
  "common_xinput_guids =
     [\<lparr> Data1 = MAKELONG 0x28DE 0x11FF, Data2 = 0, Data3 = 0,
         Data4 = [0x00, 0x00, 0x50, 0x49, 0x44, 0x56, 0x49, 0x44] \<rparr>,
      \<lparr> Data1 = MAKELONG 0x045E 0x02A1, Data2 = 0, Data3 = 0,
         Data4 = [0x00, 0x00, 0x50, 0x49, 0x44, 0x56, 0x49, 0x44] \<rparr>,
      \<lparr> Data1 = MAKELONG 0x045E 0x028E, Data2 = 0, Data3 = 0,
         Data4 = [0x00, 0x00, 0x50, 0x49, 0x44, 0x56, 0x49, 0x44] \<rparr>]"

text \<open>
  One entry of the RAWINPUT device list as \<^verbatim>\<open>guid_is_xinput_device\<close> sees it: whether
  its type is HID, the vendor and product identifiers (\<open>None\<close> when the device-info
  query fails) and the device name (\<open>None\<close> when the size query, the allocation or
  the name query fails).  The list itself is \<open>None\<close> when it cannot be obtained.
\<close>

record raw_device =
  is_hid :: bool
  hid_ids :: "(32 word \<times> 32 word) option"
  device_name :: "string option"

definition raw_device_matches :: "GUID \<Rightarrow> raw_device \<Rightarrow> bool" where
  "raw_device_matches product_guid d =
     (is_hid d \<and>
      (case hid_ids d of
         None \<Rightarrow> False
       | Some (vendor, product) \<Rightarrow>
           MAKELONG vendor product = Data1 product_guid \<and>
           (case device_name d of
              None \<Rightarrow> False
            | Some dev_name \<Rightarrow> strstr dev_name ''IG_'')))"

definition guid_is_xinput_device :: "raw_device list option \<Rightarrow> GUID \<Rightarrow> bool" where
  "guid_is_xinput_device raw_devs product_guid =
     (if list_ex (\<lambda>g. product_guid = g) common_xinput_guids then True
      else (case raw_devs of
              None \<Rightarrow> False
            | Some devs \<Rightarrow> list_ex (raw_device_matches product_guid) devs))"

subsection \<open>Driver state\<close>

text \<open>
  \<^verbatim>\<open>struct dinput_joypad_data\<close> with the fields the enumeration writes: the device
  handle, the two names and the identifiers.  The cached \<^verbatim>\<open>DIJOYSTATE2\<close> snapshot that
  poll clears and refills is left out: no statement below reads it.  The driver
  state extends \<open>pad_aliasing\<close> by the pads, the number of enumerated pads and the
  next XInput user number to hand out.
\<close>

record dinput_joypad_data =
  joypad :: "nat option"
  joy_name :: "string option"
  joy_friendly_name :: "string option"
  vid :: "32 word"
  pid :: "32 word"

record dinput_driver = pad_aliasing +
  g_pads :: "dinput_joypad_data list"
  g_joypad_cnt :: nat
  g_last_xinput_pad_idx :: nat

record DIDEVICEINSTANCE =
  guidInstance :: GUID
  guidProduct :: GUID
  tszInstanceName :: string
  tszProductName :: string

text \<open>
  What the build and the operating system fix: \<^verbatim>\<open>MAX_USERS\<close>, whether \<^verbatim>\<open>HAVE_XINPUT\<close>
  is defined, the outcome of \<^verbatim>\<open>IDirectInput8_CreateDevice\<close> for an instance GUID (the
  new device handle, or \<open>None\<close> on failure) and the RAWINPUT device list.
\<close>

record dinput_env =
  MAX_USERS :: nat
  HAVE_XINPUT :: bool
  CreateDevice :: "GUID \<Rightarrow> nat option"
  raw_input_devices :: "raw_device list option"

text \<open>
  Calls the driver makes on a device, and the notifications it sends to the
  autoconfiguration, in order.
\<close>

datatype dinput_event =
    SetDataFormat_call nat
  | SetCooperativeLevel_call nat
  | EnumObjects_call nat
  | Create_rumble_effects_call nat
  | Autoconfigure_connect "string option" "string option" nat "32 word" "32 word"
  | Autoconfigure_disconnect nat "string option"

datatype enum_result = DIENUM_STOP | DIENUM_CONTINUE

subsection \<open>Enumeration\<close>

definition is_xinput_pad :: "dinput_env \<Rightarrow> dinput_driver \<Rightarrow> DIDEVICEINSTANCE \<Rightarrow> bool" where
  "is_xinput_pad E st inst =
     (HAVE_XINPUT E \<and> g_xinput_block_pads st
      \<and> guid_is_xinput_device (raw_input_devices E) (guidProduct inst))"

definition enum_joypad_cb ::
  "dinput_env \<Rightarrow> dinput_driver \<Rightarrow> DIDEVICEINSTANCE \<Rightarrow>
   enum_result \<times> dinput_driver \<times> dinput_event list" where
  "enum_joypad_cb E st inst =
     (if g_joypad_cnt st = MAX_USERS E then (DIENUM_STOP, st, [])
      else
        (case CreateDevice E (guidInstance inst) of
           None \<Rightarrow> (DIENUM_CONTINUE, st, [])
         | Some h \<Rightarrow>
             (let n = g_joypad_cnt st;
                  p = (g_pads st ! n)
                        \<lparr> joypad := Some h,
                          joy_name := Some (tszProductName inst),
                          joy_friendly_name := Some (tszInstanceName inst),
                          vid := Data1 (guidProduct inst) mod 0x10000,
                          pid := Data1 (guidProduct inst) div 0x10000 \<rparr>;
                  st1 = st\<lparr> g_pads := (g_pads st)[n := p] \<rparr>
              in
                if is_xinput_pad E st inst then
                  (DIENUM_CONTINUE,
                   (if g_last_xinput_pad_idx st1 < 4
                    then st1\<lparr> g_xinput_pad_indexes :=
                                 (g_xinput_pad_indexes st1)
                                   [n := int (g_last_xinput_pad_idx st1)],
                               g_last_xinput_pad_idx := Suc (g_last_xinput_pad_idx st1) \<rparr>
                    else st1)
                     \<lparr> g_joypad_cnt := Suc n \<rparr>,
                   [])
                else
                  (DIENUM_CONTINUE,
                   st1\<lparr> g_joypad_cnt := Suc n \<rparr>,
                   [SetDataFormat_call h, SetCooperativeLevel_call h, EnumObjects_call h,
                    Create_rumble_effects_call n,
                    Autoconfigure_connect (joy_name p) (joy_friendly_name p) n (vid p) (pid p)]))))"

text \<open>
  \<^verbatim>\<open>IDirectInput8_EnumDevices\<close>: the system calls the callback once per attached device,
  in its order, until the callback answers \<^verbatim>\<open>DIENUM_STOP\<close>.
\<close>

fun EnumDevices ::
  "dinput_env \<Rightarrow> DIDEVICEINSTANCE list \<Rightarrow> dinput_driver \<times> dinput_event list \<Rightarrow>
   dinput_driver \<times> dinput_event list" where
  "EnumDevices E [] acc = acc"
| "EnumDevices E (inst # rest) (st, evs) =
     (case enum_joypad_cb E st inst of
        (DIENUM_STOP, st', evs') \<Rightarrow> (st', evs @ evs')
      | (DIENUM_CONTINUE, st', evs') \<Rightarrow> EnumDevices E rest (st', evs @ evs'))"

text \<open>
  \<^verbatim>\<open>dinput_joypad_init\<close>.  \<open>context_ok\<close> is the result of \<^verbatim>\<open>dinput_init_context\<close>;
  \<open>devices\<close> are the attached game controllers in the system's enumeration order.
  The reset loop writes index \<open>-1\<close> and NULL names for every \<open>i < MAX_USERS\<close>; it does
  not reset \<^verbatim>\<open>g_joypad_cnt\<close>.
\<close>

definition init_reset_pad :: "dinput_env \<Rightarrow> nat \<Rightarrow> dinput_driver \<Rightarrow> dinput_driver" where
  "init_reset_pad E i st =
     (if HAVE_XINPUT E then st\<lparr> g_xinput_pad_indexes := (g_xinput_pad_indexes st)[i := - 1] \<rparr>
      else st)
       \<lparr> g_pads := (g_pads st)[i := (g_pads st ! i)\<lparr> joy_name := None,
                                                  joy_friendly_name := None \<rparr>] \<rparr>"

definition dinput_joypad_init ::
  "dinput_env \<Rightarrow> bool \<Rightarrow> DIDEVICEINSTANCE list \<Rightarrow> dinput_driver \<Rightarrow>
   bool \<times> dinput_driver \<times> dinput_event list" where
  "dinput_joypad_init E context_ok devices st =
     (if \<not> context_ok then (False, st, [])
      else
        (case EnumDevices E devices
                (fold (init_reset_pad E) [0 ..< MAX_USERS E]
                   (if HAVE_XINPUT E then st\<lparr> g_last_xinput_pad_idx := 0 \<rparr> else st), []) of
           (st', evs) \<Rightarrow> (True, st', evs)))"

subsection \<open>Polling\<close>

text \<open>
  What the system answers for one pad during one poll tick: whether the first
  \<^verbatim>\<open>Poll\<close> fails, whether the \<^verbatim>\<open>Acquire\<close> and the second \<^verbatim>\<open>Poll\<close> of the retry fail, and
  the result of \<^verbatim>\<open>GetDeviceState\<close>.
\<close>

datatype HRESULT = DI_OK | DIERR_INPUTLOST | DIERR_NOTACQUIRED | DIERR_OTHER

record poll_response =
  Poll_failed :: bool
  Acquire_failed :: bool
  Poll_retry_failed :: bool
  GetDeviceState_result :: HRESULT

definition poll_pad ::
  "dinput_env \<Rightarrow> dinput_driver \<Rightarrow> (nat \<Rightarrow> poll_response) \<Rightarrow> nat \<Rightarrow> dinput_event list" where
  "poll_pad E st response i =
     (if HAVE_XINPUT E \<and> \<not> g_xinput_pad_indexes st ! i < 0 then []
      else if joypad (g_pads st ! i) = None then []
      else if Poll_failed (response i)
              \<and> (Acquire_failed (response i) \<or> Poll_retry_failed (response i)) then []
      else if GetDeviceState_result (response i) = DIERR_INPUTLOST
              \<or> GetDeviceState_result (response i) = DIERR_NOTACQUIRED
      then [Autoconfigure_disconnect i (joy_friendly_name (g_pads st ! i))]
      else [])"

definition dinput_joypad_poll ::
  "dinput_env \<Rightarrow> dinput_driver \<Rightarrow> (nat \<Rightarrow> poll_response) \<Rightarrow> dinput_event list" where
  "dinput_joypad_poll E st response =
     concat (map (poll_pad E st response) [0 ..< MAX_USERS E])"

text \<open>
  The index table after an enumeration, as a function of the stored devices: starting
  with next user number \<open>nxt\<close> at slot \<open>c\<close>, every flagged device receives the next
  number while that is below 4.  \<open>EnumDevices_indexes\<close> below proves that the
  enumeration computes it.
\<close>

fun assign_indexes ::
  "(DIDEVICEINSTANCE \<Rightarrow> bool) \<Rightarrow> nat \<Rightarrow> nat \<Rightarrow> DIDEVICEINSTANCE list \<Rightarrow> int list \<Rightarrow> int list" where
  "assign_indexes A nxt c [] idx = idx"
| "assign_indexes A nxt c (d # ds) idx =
     (if A d \<and> nxt < 4 then assign_indexes A (Suc nxt) (Suc c) ds (idx[c := int nxt])
      else assign_indexes A nxt (Suc c) ds idx)"

subsection \<open>Reading the enumeration\<close>

text \<open>
  Vocabulary for statements about a whole enumeration: a device is creatable when
  \<^verbatim>\<open>CreateDevice\<close> succeeds for it; the devices that end up in pad slots, starting at
  slot \<open>c\<close>, are the first \<open>MAX_USERS - c\<close> creatable ones, in enumeration order;
  \<open>aliased_before\<close> counts the devices flagged as XInput pads among the first \<open>j\<close> of
  a list.
\<close>

definition creatable :: "dinput_env \<Rightarrow> DIDEVICEINSTANCE \<Rightarrow> bool" where
  "creatable E d = (CreateDevice E (guidInstance d) \<noteq> None)"

definition stored_devices :: "dinput_env \<Rightarrow> nat \<Rightarrow> DIDEVICEINSTANCE list \<Rightarrow> DIDEVICEINSTANCE list" where
  "stored_devices E c devices = take (MAX_USERS E - c) (filter (creatable E) devices)"

definition aliased_before ::
  "dinput_env \<Rightarrow> dinput_driver \<Rightarrow> DIDEVICEINSTANCE list \<Rightarrow> nat \<Rightarrow> nat" where
  "aliased_before E st ds j = length (filter (is_xinput_pad E st) (take j ds))"

subsection \<open>Concrete inputs\<close>

definition zero_guid :: GUID where
  "zero_guid = \<lparr> Data1 = 0, Data2 = 0, Data3 = 0, Data4 = [0, 0, 0, 0, 0, 0, 0, 0] \<rparr>"

definition xbox360_guid :: GUID where
  "xbox360_guid =
     \<lparr> Data1 = 0x028E045E, Data2 = 0, Data3 = 0,
       Data4 = [0x00, 0x00, 0x50, 0x49, 0x44, 0x56, 0x49, 0x44] \<rparr>"

definition xbox_instance :: "32 word \<Rightarrow> DIDEVICEINSTANCE" where
  "xbox_instance k =
     \<lparr> guidInstance = zero_guid\<lparr> Data1 := k \<rparr>, guidProduct = xbox360_guid,
       tszInstanceName = ''Controller'', tszProductName = ''Controller (XBOX 360 For Windows)'' \<rparr>"

definition zero_pad :: dinput_joypad_data where
  "zero_pad = \<lparr> joypad = None, joy_name = None, joy_friendly_name = None, vid = 0, pid = 0 \<rparr>"

definition example_env :: dinput_env where
  "example_env =
     \<lparr> MAX_USERS = 6, HAVE_XINPUT = True,
       CreateDevice = (\<lambda>g. Some (unat (Data1 g))),
       raw_input_devices = None \<rparr>"

definition fresh_dinput :: dinput_driver where
  "fresh_dinput =
     \<lparr> g_xinput_pad_indexes = [0, 0, 0, 0, 0, 0], g_xinput_block_pads = True,
       g_pads = [zero_pad, zero_pad, zero_pad, zero_pad, zero_pad, zero_pad],
       g_joypad_cnt = 0, g_last_xinput_pad_idx = 0 \<rparr>"

definition five_xbox_pads :: "DIDEVICEINSTANCE list" where
  "five_xbox_pads =
     [xbox_instance 10, xbox_instance 11, xbox_instance 12, xbox_instance 13, xbox_instance 14]"

definition one_dinput_pad :: dinput_driver where
  "one_dinput_pad =
     \<lparr> g_xinput_pad_indexes = [- 1, - 1, - 1, - 1, - 1, - 1], g_xinput_block_pads = True,
       g_pads = [\<lparr> joypad = Some 20, joy_name = Some ''Gamepad'',
                   joy_friendly_name = Some ''Gamepad'', vid = 1, pid = 2 \<rparr>,
                 zero_pad, zero_pad, zero_pad, zero_pad, zero_pad],
       g_joypad_cnt = 1, g_last_xinput_pad_idx = 0 \<rparr>"

definition input_lost :: poll_response where
  "input_lost =
     \<lparr> Poll_failed = False, Acquire_failed = False, Poll_retry_failed = False,
       GetDeviceState_result = DIERR_INPUTLOST \<rparr>"

definition unplugged :: poll_response where
  "unplugged =
     \<lparr> Poll_failed = True, Acquire_failed = True, Poll_retry_failed = True,
       GetDeviceState_result = DIERR_NOTACQUIRED \<rparr>"

section \<open>Polling the XInput driver\<close>

text \<open>
  \<^verbatim>\<open>xinput_joypad_name\<close>: with DirectInput the name comes from the DirectInput driver;
  without it, a pad that maps to an XInput user has the generic name.
\<close>

definition xinput_joypad_name :: "xinput_build \<Rightarrow> xinput_driver \<Rightarrow> nat \<Rightarrow> fault + string option" where
  "xinput_joypad_name B st pad =
     (if HAVE_DINPUT B then Inr (dinput_name B pad)
      else
        (case pad_index_to_xuser_index B st pad of
           Inl e \<Rightarrow> Inl e
         | Inr xuser \<Rightarrow> Inr (if xuser < 0 then None else Some ''XInput Controller'')))"

text \<open>The Windows error code that \<^verbatim>\<open>XInputGetState\<close> returns for an absent controller.\<close>

definition ERROR_DEVICE_NOT_CONNECTED :: "32 word" where
  "ERROR_DEVICE_NOT_CONNECTED = 1167"

text \<open>
  \<^verbatim>\<open>xinput_joypad_poll\<close>.  \<open>get_state i\<close> is what \<^verbatim>\<open>g_XInputGetStateEx(i, &xstate)\<close> answers
  on this tick: the return code and the controller state it leaves in the buffer.
  The loop runs over the users \<open>0, 1, 2, 3\<close>.  In a build without DirectInput a
  controller that appears ends the loop: the source then destroys and initialises
  the driver again and returns; the outcome \<open>Poll_reinit\<close> carries the state and the
  notifications up to that point and the model does not follow the
  re-initialisation.  Otherwise the outcome is \<open>Poll_done\<close>; when DirectInput is
  compiled in, the poll ends with the forwarded DirectInput poll, whose
  notifications on this tick are \<open>dinput_poll_events\<close>.
\<close>

datatype xinput_poll_outcome =
    Poll_done xinput_driver "dinput_event list"
  | Poll_reinit xinput_driver "dinput_event list"

fun xinput_poll_loop ::
  "xinput_build \<Rightarrow> (nat \<Rightarrow> 32 word \<times> XINPUT_STATE) \<Rightarrow> nat list \<Rightarrow> xinput_driver \<Rightarrow>
   dinput_event list \<Rightarrow> fault + xinput_poll_outcome" where
  "xinput_poll_loop B get_state [] st evs = Inr (Poll_done st evs)"
| "xinput_poll_loop B get_state (i # rest) st evs =
     (let new_connected = (fst (get_state i) \<noteq> ERROR_DEVICE_NOT_CONNECTED);
          s = (g_xinput_states st ! i)\<lparr> xstate := snd (get_state i) \<rparr>;
          st1 = st\<lparr> g_xinput_states := (g_xinput_states st)[i := s] \<rparr>
      in
        if new_connected \<noteq> connected s then
          (if \<not> HAVE_DINPUT B \<and> new_connected then Inr (Poll_reinit st1 evs)
           else
             (let st2 = st\<lparr> g_xinput_states :=
                              (g_xinput_states st)[i := s\<lparr> connected := new_connected \<rparr>] \<rparr>
              in
                if \<not> new_connected then
                  (case xinput_joypad_name B st2 i of
                     Inl e \<Rightarrow> Inl e
                   | Inr name \<Rightarrow>
                       xinput_poll_loop B get_state rest st2
                         (evs @ [Autoconfigure_disconnect i name]))
                else xinput_poll_loop B get_state rest st2 evs))
        else xinput_poll_loop B get_state rest st1 evs)"

definition xinput_joypad_poll ::
  "xinput_build \<Rightarrow> (nat \<Rightarrow> 32 word \<times> XINPUT_STATE) \<Rightarrow> dinput_event list \<Rightarrow> xinput_driver \<Rightarrow>
   fault + xinput_poll_outcome" where
  "xinput_joypad_poll B get_state dinput_poll_events st =
     (case xinput_poll_loop B get_state [0, 1, 2, 3] st [] of
        Inl e \<Rightarrow> Inl e
      | Inr (Poll_reinit st' evs) \<Rightarrow> Inr (Poll_reinit st' evs)
      | Inr (Poll_done st' evs) \<Rightarrow>
          Inr (Poll_done st' (if HAVE_DINPUT B then evs @ dinput_poll_events else evs)))"

text \<open>The disconnect notifications the XInput loop owes for the users in a list.\<close>

definition xinput_disconnects ::
  "xinput_build \<Rightarrow> (nat \<Rightarrow> 32 word \<times> XINPUT_STATE) \<Rightarrow> xinput_driver \<Rightarrow> nat list \<Rightarrow>
   dinput_event list" where
  "xinput_disconnects B get_state st users =
     concat (map (\<lambda>i. if connected (g_xinput_states st ! i)
                         \<and> fst (get_state i) = ERROR_DEVICE_NOT_CONNECTED
                      then [Autoconfigure_disconnect i (dinput_name B i)] else []) users)"

section \<open>Properties of the slot registry\<close>

lemma find_vacant_pad_from_full:
  "(\<And>j. i \<le> j \<Longrightarrow> j < MAX_PLAYERS \<Longrightarrow> used (slots ! j)) \<Longrightarrow>
   find_vacant_pad_from MAX_PLAYERS i slots = (- 1, slots)"
proof (induction MAX_PLAYERS i slots rule: find_vacant_pad_from.induct)
  case (1 MAX_PLAYERS i slots)
  show ?case
  proof (cases "i < MAX_PLAYERS")
    case True
    then have u: "used (slots ! i)" using "1.prems" by simp
    have "find_vacant_pad_from MAX_PLAYERS (Suc i) slots = (- 1, slots)"
      using "1.IH" [OF True u] "1.prems" by simp
    then show ?thesis
      using True u by (subst find_vacant_pad_from.simps) simp
  next
    case False
    then show ?thesis by (subst find_vacant_pad_from.simps) simp
  qed
qed

lemma find_vacant_pad_from_first:
  "i \<le> s \<Longrightarrow> s < MAX_PLAYERS \<Longrightarrow> \<not> used (slots ! s) \<Longrightarrow>
   (\<And>j. i \<le> j \<Longrightarrow> j < s \<Longrightarrow> used (slots ! j)) \<Longrightarrow>
   find_vacant_pad_from MAX_PLAYERS i slots = (int s, slots[s := zero_slot])"
proof (induction MAX_PLAYERS i slots rule: find_vacant_pad_from.induct)
  case (1 MAX_PLAYERS i slots)
  have lt: "i < MAX_PLAYERS" using "1.prems" by simp
  show ?case
  proof (cases "i = s")
    case True
    then show ?thesis
      using "1.prems" by (subst find_vacant_pad_from.simps) simp
  next
    case False
    then have lts: "i < s" using "1.prems" by simp
    then have u: "used (slots ! i)" using "1.prems" by simp
    have "find_vacant_pad_from MAX_PLAYERS (Suc i) slots = (int s, slots[s := zero_slot])"
      using "1.IH" [OF lt u] "1.prems" lts by simp
    then show ?thesis
      using lt u by (subst find_vacant_pad_from.simps) simp
  qed
qed

lemma find_vacant_pad_full:
  "(\<And>j. j < MAX_PLAYERS \<Longrightarrow> used (slots ! j)) \<Longrightarrow>
   find_vacant_pad MAX_PLAYERS slots = (- 1, slots)"
  unfolding find_vacant_pad_def by (rule find_vacant_pad_from_full) simp

lemma find_vacant_pad_first:
  "s < MAX_PLAYERS \<Longrightarrow> \<not> used (slots ! s) \<Longrightarrow> (\<And>j. j < s \<Longrightarrow> used (slots ! j)) \<Longrightarrow>
   find_vacant_pad MAX_PLAYERS slots = (int s, slots[s := zero_slot])"
  unfolding find_vacant_pad_def by (rule find_vacant_pad_from_first) simp_all

text \<open>
  C10.  For a pad index that is out of range (\<open>pad \<ge> MAX_PLAYERS\<close>) or whose slot is
  not in use, \<^verbatim>\<open>apple_joypad_disconnect\<close> returns the registry as it was, the addressed
  slot included, and calls no backend.
\<close>

theorem disconnect_noop:
  assumes "MAX_PLAYERS \<le> pad \<or> \<not> used (slots ! pad)"
  shows "apple_joypad_disconnect ifaces MAX_PLAYERS slots pad = (slots, [])"
  using assms by (auto simp: apple_joypad_disconnect_def)

theorem disconnect_noop_witness:
  "apple_joypad_disconnect example_ifaces 2 [wii_slot, zero_slot] 5 = ([wii_slot, zero_slot], [])
   \<and> apple_joypad_disconnect example_ifaces 2 [wii_slot, zero_slot] 1 = ([wii_slot, zero_slot], [])
   \<and> \<not> used ([wii_slot, zero_slot] ! 1)"
proof -
  have a: "(2::nat) \<le> 5 \<or> \<not> used ([wii_slot, zero_slot] ! 5)" by simp
  have b: "\<not> used ([wii_slot, zero_slot] ! 1)" by (simp add: zero_slot_def)
  show ?thesis
    using disconnect_noop [OF a, of example_ifaces]
      disconnect_noop [OF disjI2 [OF b], of example_ifaces 2] b
    by simp
qed

text \<open>
  C6.  When every one of the \<open>MAX_PLAYERS\<close> slots is in use, a further connect (by
  name or through the GameController API) returns \<open>-1\<close>, the "no vacant pad" result,
  calls no backend, and returns the registry unchanged: every slot is still in use
  and answers the interface query as before.
\<close>

theorem connect_when_full:
  assumes "length slots = MAX_PLAYERS" and "\<forall>i<MAX_PLAYERS. used (slots ! i)"
  shows "joypad_connection_connect ifaces MAX_PLAYERS slots name connection = (- 1, slots, [])
       \<and> apple_joypad_connect_gcapi MAX_PLAYERS slots = (- 1, slots)
       \<and> (\<forall>i<MAX_PLAYERS.
            used (fst (snd (joypad_connection_connect ifaces MAX_PLAYERS slots name connection)) ! i)
            \<and> apple_joypad_has_interface MAX_PLAYERS
                (fst (snd (joypad_connection_connect ifaces MAX_PLAYERS slots name connection))) i
              = apple_joypad_has_interface MAX_PLAYERS slots i)"
proof -
  have f: "find_vacant_pad MAX_PLAYERS slots = (- 1, slots)"
    using assms(2) by (intro find_vacant_pad_full) simp
  have c: "joypad_connection_connect ifaces MAX_PLAYERS slots name connection = (- 1, slots, [])"
    by (simp add: joypad_connection_connect_def f)
  have g: "apple_joypad_connect_gcapi MAX_PLAYERS slots = (- 1, slots)"
    by (simp add: apple_joypad_connect_gcapi_def f)
  show ?thesis using assms(2) by (simp add: c g)
qed

theorem connect_when_full_witness:
  "joypad_connection_connect example_ifaces 2 [wii_slot, ps3_slot]
     (Some ''Nintendo RVL-CNT-01'') 3 = (- 1, [wii_slot, ps3_slot], [])
   \<and> apple_joypad_connect_gcapi 2 [wii_slot, ps3_slot] = (- 1, [wii_slot, ps3_slot])"
proof -
  have l: "length [wii_slot, ps3_slot] = 2" by simp
  have u: "\<forall>i<2. used ([wii_slot, ps3_slot] ! i)"
    by (simp add: wii_slot_def ps3_slot_def less_Suc_eq numeral_2_eq_2)
  show ?thesis
    using connect_when_full [OF l u, of example_ifaces "Some ''Nintendo RVL-CNT-01''" 3]
    by simp
qed

text \<open>
  C7 as stated fails: the scan of \<^verbatim>\<open>find_vacant_pad\<close> starts at index 0, so with slot 0
  vacant, releasing slot 1 and allocating again yields index 0, not 1.
\<close>

theorem release_then_allocate_counterexample:
  "used ([zero_slot, wii_slot] ! 1)
   \<and> fst (find_vacant_pad 2
            (fst (apple_joypad_disconnect example_ifaces 2 [zero_slot, wii_slot] 1))) = 0
   \<and> fst (find_vacant_pad 2
            (fst (apple_joypad_disconnect example_ifaces 2 [zero_slot, wii_slot] 1))) \<noteq> 1"
proof -
  have d: "fst (apple_joypad_disconnect example_ifaces 2 [zero_slot, wii_slot] 1)
           = [zero_slot, zero_slot]"
    by (simp add: apple_joypad_disconnect_def wii_slot_def)
  have "find_vacant_pad 2 [zero_slot, zero_slot] = (int 0, [zero_slot, zero_slot][0 := zero_slot])"
    by (rule find_vacant_pad_first) (simp_all add: zero_slot_def)
  then have f: "fst (find_vacant_pad 2 [zero_slot, zero_slot]) = 0" by simp
  have u: "used ([zero_slot, wii_slot] ! 1)" by (simp add: wii_slot_def)
  show ?thesis unfolding d f using u by simp
qed

text \<open>
  C7, amended.  For a slot index \<open>s\<close> in use such that every slot below \<open>s\<close> is in
  use too, releasing \<open>s\<close> and then allocating returns \<open>s\<close> again.  The slot handed
  out by \<^verbatim>\<open>find_vacant_pad\<close> is all zero; after \<^verbatim>\<open>apple_joypad_connect_gcapi\<close> it is the zero
  slot with \<open>used\<close> and \<open>is_gcapi\<close> set, and after \<^verbatim>\<open>joypad_connection_connect\<close> it is
  built from the zero slot and the new connection only.  No other slot changes.
\<close>

theorem release_then_allocate:
  assumes "length slots = MAX_PLAYERS" and "s < MAX_PLAYERS" and "used (slots ! s)"
    and "\<forall>j < s. used (slots ! j)"
  shows "find_vacant_pad MAX_PLAYERS (fst (apple_joypad_disconnect ifaces MAX_PLAYERS slots s))
           = (int s, slots[s := zero_slot])
       \<and> apple_joypad_connect_gcapi MAX_PLAYERS
             (fst (apple_joypad_disconnect ifaces MAX_PLAYERS slots s))
           = (int s, slots[s := zero_slot\<lparr> used := True, is_gcapi := True \<rparr>])
       \<and> fst (joypad_connection_connect ifaces MAX_PLAYERS
                (fst (apple_joypad_disconnect ifaces MAX_PLAYERS slots s)) name connection)
           = int s
       \<and> fst (snd (joypad_connection_connect ifaces MAX_PLAYERS
                (fst (apple_joypad_disconnect ifaces MAX_PLAYERS slots s)) name connection))
           = slots[s := fst (case name of
                               None \<Rightarrow> (zero_slot\<lparr> used := True \<rparr>, [])
                             | Some n \<Rightarrow>
                                 pad_map_loop ifaces n connection s pad_map
                                   (zero_slot\<lparr> used := True \<rparr>, []))]"
proof -
  let ?r = "slots[s := zero_slot]"
  have d: "fst (apple_joypad_disconnect ifaces MAX_PLAYERS slots s) = ?r"
    using assms by (simp add: apple_joypad_disconnect_def)
  have v: "\<not> used (?r ! s)" using assms by (simp add: zero_slot_def)
  have b: "\<And>j. j < s \<Longrightarrow> used (?r ! j)" using assms by simp
  have "find_vacant_pad MAX_PLAYERS ?r = (int s, ?r[s := zero_slot])"
    using assms(2) v b by (rule find_vacant_pad_first)
  then have f: "find_vacant_pad MAX_PLAYERS ?r = (int s, ?r)" by simp
  have z: "?r ! s = zero_slot" using assms by simp
  have g: "apple_joypad_connect_gcapi MAX_PLAYERS ?r
             = (int s, slots[s := zero_slot\<lparr> used := True, is_gcapi := True \<rparr>])"
    using assms(2) by (simp add: apple_joypad_connect_gcapi_def f z)
  have c: "joypad_connection_connect ifaces MAX_PLAYERS ?r name connection
             = (case (case name of
                        None \<Rightarrow> (zero_slot\<lparr> used := True \<rparr>, [])
                      | Some n \<Rightarrow>
                          pad_map_loop ifaces n connection s pad_map
                            (zero_slot\<lparr> used := True \<rparr>, [])) of
                  (t, calls) \<Rightarrow> (int s, ?r[s := t], calls))"
    using assms(2) by (cases name) (simp_all add: joypad_connection_connect_def f z)
  show ?thesis
    unfolding d f g c by (simp add: case_prod_beta)
qed

theorem release_then_allocate_witness:
  "find_vacant_pad 2 (fst (apple_joypad_disconnect example_ifaces 2 [ps3_slot, wii_slot] 1))
     = (1, [ps3_slot, zero_slot])
   \<and> apple_joypad_connect_gcapi 2
        (fst (apple_joypad_disconnect example_ifaces 2 [ps3_slot, wii_slot] 1))
     = (1, [ps3_slot, zero_slot\<lparr> used := True, is_gcapi := True \<rparr>])
   \<and> fst (joypad_connection_connect example_ifaces 2
        (fst (apple_joypad_disconnect example_ifaces 2 [ps3_slot, wii_slot] 1)) None 3) = 1"
proof -
  have l: "length [ps3_slot, wii_slot] = 2" by simp
  have s: "(1::nat) < 2" by simp
  have u: "used ([ps3_slot, wii_slot] ! 1)" by (simp add: wii_slot_def)
  have b: "\<forall>j<1. used ([ps3_slot, wii_slot] ! j)" by (simp add: ps3_slot_def)
  show ?thesis
    using release_then_allocate [OF l s u b, of example_ifaces None 3] by simp
qed

section \<open>Release, destroy and the rumble motors\<close>







section \<open>The dispatcher\<close>

text \<open>
  Button, set_rumble and name answer a pad index at or beyond \<open>MAX_PLAYERS\<close> with
  their neutral value and call no backend.
\<close>

lemma dispatcher_out_of_range:
  assumes "MAX_PLAYERS \<le> pad"
  shows "apple_joypad_button M MAX_PLAYERS apple pad joykey = Inr False
       \<and> apple_joypad_rumble ifaces MAX_PLAYERS slots pad effect strength = (False, slots, [])
       \<and> apple_joypad_name pad = None"
  using assms
  by (auto simp: apple_joypad_button_def apple_joypad_rumble_def apple_joypad_name_def
      split: option.splits)

lemma axis_none_or_unselected:
  "joyaxis = AXIS_NONE M \<or> (\<not> AXIS_NEG_GET M joyaxis < 4 \<and> \<not> AXIS_POS_GET M joyaxis < 4)
   \<Longrightarrow> apple_joypad_axis M apple port joyaxis = Inr 0"
  by (auto simp: apple_joypad_axis_def split: option.splits)

text \<open>
  C1 at the failing input.  With two pads (\<open>MAX_PLAYERS = 2\<close>) and the axis code that
  selects negative axis 0, the axis query for port 2 indexes \<^verbatim>\<open>axes[2][0]\<close>, outside the
  array: \<^verbatim>\<open>apple_joypad_axis\<close> has no \<^verbatim>\<open>port < MAX_PLAYERS\<close> test.  The button query,
  which has the test, answers \<open>False\<close> for the same port.
\<close>

theorem axis_out_of_range_port_reads_outside:
  "length (buttons example_apple) = 2 \<and> length (axes example_apple) = 2
   \<and> apple_joypad_axis retroarch_macros (Some example_apple) 2 0x0000FFFF = Inl OutOfBoundsAccess
   \<and> apple_joypad_button retroarch_macros 2 (Some example_apple) 2 0 = Inr False"
  by (simp add: apple_data_ok_def example_apple_def apple_joypad_axis_def retroarch_macros_def
      axes_get_def array_get_def apple_joypad_button_def)

text \<open>
  C9 as stated fails: an axis code whose negative index and positive index are both
  below 4 is answered from the negative branch, so the result can be negative
  although the positive index is below 4.
\<close>

theorem axis_sign_counterexample:
  "AXIS_POS_GET retroarch_macros 0x00000001 < 4
   \<and> apple_joypad_axis retroarch_macros (Some example_apple) 0 0x00000001 = Inr (- 5)
   \<and> sint (- 5 :: 16 word) < 0"
  by (simp add: example_apple_def apple_joypad_axis_def retroarch_macros_def
      axes_get_def array_get_def)

lemma axes_get_ok:
  assumes "apple_data_ok MAX_PLAYERS a" and "port < MAX_PLAYERS" and "k < 4"
  shows "axes_get a port k = Inr (axes a ! port ! k)"
  using assms by (simp add: apple_data_ok_def axes_get_def array_get_def)

text \<open>
  C9, amended.  For every port below \<open>MAX_PLAYERS\<close> and every axis code the axis query
  returns a value: at most 0 when the negative index is below 4; otherwise at least
  0 when the positive index is below 4; otherwise 0.  Without input data it is 0.
\<close>

theorem axis_sign_clamped:
  assumes "apple_data_ok MAX_PLAYERS a" and "port < MAX_PLAYERS"
  shows "apple_joypad_axis M None port joyaxis = Inr 0
       \<and> (\<exists>v. apple_joypad_axis M (Some a) port joyaxis = Inr v
            \<and> (AXIS_NEG_GET M joyaxis < 4 \<longrightarrow> sint v \<le> 0)
            \<and> (\<not> AXIS_NEG_GET M joyaxis < 4 \<and> AXIS_POS_GET M joyaxis < 4 \<longrightarrow> 0 \<le> sint v)
            \<and> (\<not> AXIS_NEG_GET M joyaxis < 4 \<and> \<not> AXIS_POS_GET M joyaxis < 4 \<longrightarrow> v = 0))"
proof -
  have n: "apple_joypad_axis M None port joyaxis = Inr 0"
    by (simp add: apple_joypad_axis_def)
  have g: "\<And>w :: 32 word. w < 4 \<Longrightarrow>
             axes_get a port (unat w) = Inr (axes a ! port ! unat w)"
  proof -
    fix w :: "32 word"
    assume "w < 4"
    then have "unat w < 4" by (simp add: word_less_nat_alt)
    then show "axes_get a port (unat w) = Inr (axes a ! port ! unat w)"
      using assms by (rule_tac axes_get_ok)
  qed
  have "\<exists>v. apple_joypad_axis M (Some a) port joyaxis = Inr v
            \<and> (AXIS_NEG_GET M joyaxis < 4 \<longrightarrow> sint v \<le> 0)
            \<and> (\<not> AXIS_NEG_GET M joyaxis < 4 \<and> AXIS_POS_GET M joyaxis < 4 \<longrightarrow> 0 \<le> sint v)
            \<and> (\<not> AXIS_NEG_GET M joyaxis < 4 \<and> \<not> AXIS_POS_GET M joyaxis < 4 \<longrightarrow> v = 0)"
    by (auto simp: apple_joypad_axis_def g)
  then show ?thesis using n by simp
qed

theorem axis_sign_clamped_witness:
  "apple_data_ok 2 example_apple
   \<and> apple_joypad_axis retroarch_macros (Some example_apple) 1 0xFFFF0000 = Inr 3
   \<and> (\<exists>v. apple_joypad_axis retroarch_macros (Some example_apple) 1 0xFFFF0000 = Inr v
          \<and> 0 \<le> sint v)"
proof -
  have ok: "apple_data_ok 2 example_apple" by (simp add: apple_data_ok_def example_apple_def)
  have p: "(1::nat) < 2" by simp
  have m: "\<not> AXIS_NEG_GET retroarch_macros 0xFFFF0000 < 4
           \<and> AXIS_POS_GET retroarch_macros 0xFFFF0000 < 4"
    by (simp add: retroarch_macros_def)
  have e: "apple_joypad_axis retroarch_macros (Some example_apple) 1 0xFFFF0000 = Inr 3"
    by (simp add: example_apple_def apple_joypad_axis_def retroarch_macros_def
      axes_get_def array_get_def)
  show ?thesis
    using axis_sign_clamped [OF ok p, of retroarch_macros "0xFFFF0000"] ok m e by auto
qed

section \<open>Rumble without support, and query_pad\<close>

text \<open>
  C3 as stated fails in the XInput driver: for a pad mapped to XInput user 0, with no
  \<^verbatim>\<open>XInputSetState\<close> entry point, \<^verbatim>\<open>xinput_joypad_rumble\<close> returns \<open>False\<close> and calls
  nothing, but it has already stored the requested strength in the cached vibration
  state of that user.
\<close>

theorem rumble_unsupported_counterexample:
  "g_XInputSetState example_xinput = None
   \<and> xinput_joypad_rumble example_build example_xinput 0 RETRO_RUMBLE_STRONG 0x1234
       = Inr (False,
              example_xinput\<lparr> g_xinput_rumble_states :=
                 [\<lparr> wLeftMotorSpeed = 0x1234, wRightMotorSpeed = 0 \<rparr>,
                  zero_vibration, zero_vibration, zero_vibration] \<rparr>,
              [])
   \<and> example_xinput\<lparr> g_xinput_rumble_states :=
                 [\<lparr> wLeftMotorSpeed = 0x1234, wRightMotorSpeed = 0 \<rparr>,
                  zero_vibration, zero_vibration, zero_vibration] \<rparr> \<noteq> example_xinput"
  by (simp add: xinput_joypad_rumble_def pad_index_to_xuser_index_def example_build_def
      example_xinput_def array_get_def xuser_get_def set_motor_speed_def zero_vibration_def)

text \<open>
  C3, amended.  A set_rumble request to a pad without rumble support returns \<open>False\<close>
  and calls no backend.  In the Apple driver (pad out of range, slot unused, no
  interface, or an interface without \<open>set_rumble\<close>) the registry is unchanged.  In the
  XInput driver a pad mapped to no XInput user, with no DirectInput \<open>set_rumble\<close> to
  forward to, leaves the state unchanged; a pad mapped to XInput user \<open>u\<close> while the
  \<^verbatim>\<open>XInputSetState\<close> entry point is missing has the cached motor speed of \<open>u\<close> for the
  requested effect overwritten with the requested strength, and nothing else.
\<close>

theorem rumble_unsupported:
  "(MAX_PLAYERS \<le> pad \<or> \<not> used (slots ! pad) \<or> iface (slots ! pad) = None
      \<or> (\<exists>r. iface (slots ! pad) = Some r \<and> \<not> set_rumble (ifaces r))
     \<longrightarrow> apple_joypad_rumble ifaces MAX_PLAYERS slots pad effect strength = (False, slots, []))
   \<and> (pad_index_to_xuser_index B st xpad = Inr (- 1)
        \<and> (\<not> HAVE_DINPUT B \<or> dinput_set_rumble B = None)
     \<longrightarrow> xinput_joypad_rumble B st xpad effect strength = Inr (False, st, []))
   \<and> (pad_index_to_xuser_index B st xpad = Inr (int u)
        \<and> u < length (g_xinput_rumble_states st) \<and> g_XInputSetState st = None
     \<longrightarrow> xinput_joypad_rumble B st xpad effect strength
           = Inr (False,
                  st\<lparr> g_xinput_rumble_states :=
                        (g_xinput_rumble_states st)
                          [u := set_motor_speed effect strength (g_xinput_rumble_states st ! u)] \<rparr>,
                  []))"
proof -
  have a: "MAX_PLAYERS \<le> pad \<or> \<not> used (slots ! pad) \<or> iface (slots ! pad) = None
      \<or> (\<exists>r. iface (slots ! pad) = Some r \<and> \<not> set_rumble (ifaces r))
     \<longrightarrow> apple_joypad_rumble ifaces MAX_PLAYERS slots pad effect strength = (False, slots, [])"
    by (auto simp: apple_joypad_rumble_def split: option.splits)
  have b: "pad_index_to_xuser_index B st xpad = Inr (- 1)
        \<and> (\<not> HAVE_DINPUT B \<or> dinput_set_rumble B = None)
     \<longrightarrow> xinput_joypad_rumble B st xpad effect strength = Inr (False, st, [])"
    by (auto simp: xinput_joypad_rumble_def)
  have c: "pad_index_to_xuser_index B st xpad = Inr (int u)
        \<and> u < length (g_xinput_rumble_states st) \<and> g_XInputSetState st = None
     \<longrightarrow> xinput_joypad_rumble B st xpad effect strength
           = Inr (False,
                  st\<lparr> g_xinput_rumble_states :=
                        (g_xinput_rumble_states st)
                          [u := set_motor_speed effect strength (g_xinput_rumble_states st ! u)] \<rparr>,
                  [])"
    by (auto simp: xinput_joypad_rumble_def xuser_get_def array_get_def)
  show ?thesis using a b c by blast
qed

theorem rumble_unsupported_witness:
  "apple_joypad_rumble example_ifaces 2 [wii_slot, ps3_slot] 1 RETRO_RUMBLE_WEAK 5
     = (False, [wii_slot, ps3_slot], [])
   \<and> xinput_joypad_rumble example_build example_xinput 1 RETRO_RUMBLE_WEAK 5
     = Inr (False, example_xinput, [])
   \<and> xinput_joypad_rumble example_build example_xinput 0 RETRO_RUMBLE_WEAK 5
     = Inr (False,
            example_xinput\<lparr> g_xinput_rumble_states :=
               [\<lparr> wLeftMotorSpeed = 0, wRightMotorSpeed = 5 \<rparr>,
                zero_vibration, zero_vibration, zero_vibration] \<rparr>,
            [])"
proof -
  have a: "iface ([wii_slot, ps3_slot] ! 1) = Some apple_pad_ps3
           \<and> \<not> set_rumble (example_ifaces apple_pad_ps3)"
    by (simp add: ps3_slot_def example_ifaces_def)
  have b: "pad_index_to_xuser_index example_build example_xinput 1 = Inr (- 1)
           \<and> dinput_set_rumble example_build = None"
    by (simp add: pad_index_to_xuser_index_def example_build_def example_xinput_def array_get_def)
  have c: "pad_index_to_xuser_index example_build example_xinput 0 = Inr (int 0)
           \<and> 0 < length (g_xinput_rumble_states example_xinput)
           \<and> g_XInputSetState example_xinput = None"
    by (simp add: pad_index_to_xuser_index_def example_build_def example_xinput_def array_get_def)
  have e: "(g_xinput_rumble_states example_xinput)
             [0 := set_motor_speed RETRO_RUMBLE_WEAK 5 (g_xinput_rumble_states example_xinput ! 0)]
           = [\<lparr> wLeftMotorSpeed = 0, wRightMotorSpeed = 5 \<rparr>,
              zero_vibration, zero_vibration, zero_vibration]"
    by (simp add: example_xinput_def set_motor_speed_def zero_vibration_def)
  have t1: "apple_joypad_rumble example_ifaces 2 [wii_slot, ps3_slot] 1 RETRO_RUMBLE_WEAK 5
     = (False, [wii_slot, ps3_slot], [])"
    using rumble_unsupported [where pad = 1 and slots = "[wii_slot, ps3_slot]"
        and ifaces = example_ifaces and MAX_PLAYERS = 2 and effect = RETRO_RUMBLE_WEAK
        and strength = 5] a
    by blast
  have t2: "xinput_joypad_rumble example_build example_xinput 1 RETRO_RUMBLE_WEAK 5
     = Inr (False, example_xinput, [])"
    using rumble_unsupported [where B = example_build and st = example_xinput and xpad = 1
        and effect = RETRO_RUMBLE_WEAK and strength = 5] b
    by blast
  have t3: "xinput_joypad_rumble example_build example_xinput 0 RETRO_RUMBLE_WEAK 5
     = Inr (False,
            example_xinput\<lparr> g_xinput_rumble_states :=
               (g_xinput_rumble_states example_xinput)
                 [0 := set_motor_speed RETRO_RUMBLE_WEAK 5
                         (g_xinput_rumble_states example_xinput ! 0)] \<rparr>,
            [])"
    using rumble_unsupported [where B = example_build and st = example_xinput and xpad = 0
        and u = 0 and effect = RETRO_RUMBLE_WEAK and strength = 5] c
    by blast
  show ?thesis using t1 t2 t3 unfolding e by simp
qed

text \<open>
  C5 as stated fails in the Apple driver: with no device in slot 0, query_pad 0 is
  \<open>True\<close>.
\<close>

theorem query_pad_counterexample:
  "\<not> used ([zero_slot, zero_slot] ! 0) \<and> apple_joypad_query_pad 2 0"
  by (simp add: zero_slot_def apple_joypad_query_pad_def)

text \<open>
  C5, amended.  The Apple driver's query_pad is true exactly for the pad indices
  below \<open>MAX_PLAYERS\<close>, hence for every pad whose slot is in use, and for the vacant
  slots too.  The XInput driver's query_pad returns, for a pad mapped to XInput user
  \<open>u\<close>, the \<open>connected\<close> flag cached for \<open>u\<close>; for a pad mapped to no user it returns
  the DirectInput driver's answer when DirectInput is compiled in and \<open>False\<close>
  otherwise.  Without DirectInput it is the \<open>connected\<close> flag of the pad itself.
\<close>

theorem query_pad_answers:
  "(apple_joypad_query_pad MAX_PLAYERS pad \<longleftrightarrow> pad < MAX_PLAYERS)
   \<and> (pad < MAX_PLAYERS \<and> used (slots ! pad) \<longrightarrow> apple_joypad_query_pad MAX_PLAYERS pad)
   \<and> (pad_index_to_xuser_index B st xpad = Inr (int u) \<and> u < length (g_xinput_states st)
        \<longrightarrow> xinput_joypad_query_pad B st xpad = Inr (connected (g_xinput_states st ! u)))
   \<and> (pad_index_to_xuser_index B st xpad = Inr x \<and> x \<le> - 1
        \<longrightarrow> xinput_joypad_query_pad B st xpad = Inr (HAVE_DINPUT B \<and> dinput_query_pad B xpad))
   \<and> (\<not> HAVE_DINPUT B \<and> xpad < DEFAULT_MAX_PADS B \<and> xpad < length (g_xinput_states st)
        \<longrightarrow> xinput_joypad_query_pad B st xpad = Inr (connected (g_xinput_states st ! xpad)))"
proof -
  have a: "apple_joypad_query_pad MAX_PLAYERS pad \<longleftrightarrow> pad < MAX_PLAYERS"
    by (simp add: apple_joypad_query_pad_def)
  have c: "pad_index_to_xuser_index B st xpad = Inr (int u) \<and> u < length (g_xinput_states st)
        \<longrightarrow> xinput_joypad_query_pad B st xpad = Inr (connected (g_xinput_states st ! u))"
    by (simp add: xinput_joypad_query_pad_def xuser_get_def array_get_def)
  have d: "pad_index_to_xuser_index B st xpad = Inr x \<and> x \<le> - 1
        \<longrightarrow> xinput_joypad_query_pad B st xpad = Inr (HAVE_DINPUT B \<and> dinput_query_pad B xpad)"
    by (auto simp: xinput_joypad_query_pad_def)
  have e: "\<not> HAVE_DINPUT B \<and> xpad < DEFAULT_MAX_PADS B \<and> xpad < length (g_xinput_states st)
        \<longrightarrow> xinput_joypad_query_pad B st xpad = Inr (connected (g_xinput_states st ! xpad))"
    by (auto simp: xinput_joypad_query_pad_def pad_index_to_xuser_index_def xuser_get_def
        array_get_def)
  show ?thesis using a c d e by blast
qed

theorem query_pad_answers_witness:
  "apple_joypad_query_pad 2 1
   \<and> xinput_joypad_query_pad example_build example_xinput 0 = Inr True
   \<and> xinput_joypad_query_pad example_build example_xinput 1 = Inr False"
proof -
  have a: "(1::nat) < 2 \<and> used ([zero_slot, wii_slot] ! 1)" by (simp add: wii_slot_def)
  have b: "pad_index_to_xuser_index example_build example_xinput 0 = Inr (int 0)
           \<and> 0 < length (g_xinput_states example_xinput)
           \<and> connected (g_xinput_states example_xinput ! 0)"
    by (simp add: pad_index_to_xuser_index_def example_build_def example_xinput_def array_get_def)
  have c: "pad_index_to_xuser_index example_build example_xinput 1 = Inr (- 1)
           \<and> (- 1 :: int) \<le> - 1 \<and> \<not> dinput_query_pad example_build 1"
    by (simp add: pad_index_to_xuser_index_def example_build_def example_xinput_def array_get_def)
  have t1: "apple_joypad_query_pad 2 1"
    using query_pad_answers [where MAX_PLAYERS = 2 and pad = 1 and slots = "[zero_slot, wii_slot]"] a
    by blast
  have t2: "xinput_joypad_query_pad example_build example_xinput 0 = Inr True"
    using query_pad_answers [where B = example_build and st = example_xinput and xpad = 0
        and u = 0 and x = 0 and MAX_PLAYERS = 2 and pad = 1 and slots = "[zero_slot, wii_slot]"] b
    by simp
  have t3: "xinput_joypad_query_pad example_build example_xinput 1 = Inr False"
    using query_pad_answers [where B = example_build and st = example_xinput and xpad = 1
        and x = "- 1" and u = 0 and MAX_PLAYERS = 2 and pad = 1
        and slots = "[zero_slot, wii_slot]"] c
    by simp
  show ?thesis using t1 t2 t3 by simp
qed

section \<open>DirectInput enumeration and the XInput index table\<close>



lemma enum_joypad_cb_stop:
  "g_joypad_cnt st = MAX_USERS E \<Longrightarrow> enum_joypad_cb E st inst = (DIENUM_STOP, st, [])"
  by (simp add: enum_joypad_cb_def)

lemma enum_joypad_cb_create_failed:
  "g_joypad_cnt st \<noteq> MAX_USERS E \<Longrightarrow> CreateDevice E (guidInstance inst) = None \<Longrightarrow>
   enum_joypad_cb E st inst = (DIENUM_CONTINUE, st, [])"
  by (simp add: enum_joypad_cb_def)

lemma enum_joypad_cb_created:
  assumes "g_joypad_cnt st \<noteq> MAX_USERS E" and "CreateDevice E (guidInstance inst) = Some h"
  shows "\<exists>st' evs. enum_joypad_cb E st inst = (DIENUM_CONTINUE, st', evs)
           \<and> g_joypad_cnt st' = Suc (g_joypad_cnt st)
           \<and> g_xinput_block_pads st' = g_xinput_block_pads st
           \<and> length (g_pads st') = length (g_pads st)
           \<and> g_xinput_pad_indexes st'
               = (if is_xinput_pad E st inst \<and> g_last_xinput_pad_idx st < 4
                  then (g_xinput_pad_indexes st)[g_joypad_cnt st := int (g_last_xinput_pad_idx st)]
                  else g_xinput_pad_indexes st)
           \<and> g_last_xinput_pad_idx st'
               = (if is_xinput_pad E st inst \<and> g_last_xinput_pad_idx st < 4
                  then Suc (g_last_xinput_pad_idx st) else g_last_xinput_pad_idx st)"
  using assms by (simp add: enum_joypad_cb_def Let_def)

lemma is_xinput_pad_block_pads:
  "g_xinput_block_pads st' = g_xinput_block_pads st \<Longrightarrow> is_xinput_pad E st' = is_xinput_pad E st"
  by (rule ext) (simp add: is_xinput_pad_def)

lemma EnumDevices_indexes:
  assumes "g_joypad_cnt st \<le> MAX_USERS E"
  shows "g_xinput_pad_indexes (fst (EnumDevices E devices (st, evs)))
           = assign_indexes (is_xinput_pad E st) (g_last_xinput_pad_idx st) (g_joypad_cnt st)
               (stored_devices E (g_joypad_cnt st) devices) (g_xinput_pad_indexes st)
         \<and> g_joypad_cnt (fst (EnumDevices E devices (st, evs)))
           = g_joypad_cnt st + length (stored_devices E (g_joypad_cnt st) devices)"
  using assms
proof (induction devices arbitrary: st evs)
  case Nil
  then show ?case by (simp add: stored_devices_def)
next
  case (Cons d rest)
  show ?case
  proof (cases "g_joypad_cnt st = MAX_USERS E")
    case True
    then show ?thesis
      by (simp add: enum_joypad_cb_stop stored_devices_def)
  next
    case False
    then have lt: "g_joypad_cnt st < MAX_USERS E" using Cons.prems by simp
    show ?thesis
    proof (cases "CreateDevice E (guidInstance d)")
      case None
      then have "stored_devices E (g_joypad_cnt st) (d # rest)
                 = stored_devices E (g_joypad_cnt st) rest"
        by (simp add: stored_devices_def creatable_def)
      then show ?thesis
        using Cons.IH [OF Cons.prems, of evs] None False
        by (simp add: enum_joypad_cb_create_failed)
    next
      case (Some h)
      obtain st' evs' where
        cb: "enum_joypad_cb E st d = (DIENUM_CONTINUE, st', evs')" and
        cnt: "g_joypad_cnt st' = Suc (g_joypad_cnt st)" and
        blk: "g_xinput_block_pads st' = g_xinput_block_pads st" and
        idx: "g_xinput_pad_indexes st'
               = (if is_xinput_pad E st d \<and> g_last_xinput_pad_idx st < 4
                  then (g_xinput_pad_indexes st)[g_joypad_cnt st := int (g_last_xinput_pad_idx st)]
                  else g_xinput_pad_indexes st)" and
        lst: "g_last_xinput_pad_idx st'
               = (if is_xinput_pad E st d \<and> g_last_xinput_pad_idx st < 4
                  then Suc (g_last_xinput_pad_idx st) else g_last_xinput_pad_idx st)"
        using enum_joypad_cb_created [OF False Some] by blast
      have le: "g_joypad_cnt st' \<le> MAX_USERS E" using cnt lt by simp
      have sd: "stored_devices E (g_joypad_cnt st) (d # rest)
                 = d # stored_devices E (g_joypad_cnt st') rest"
      proof -
        have "MAX_USERS E - g_joypad_cnt st = Suc (MAX_USERS E - g_joypad_cnt st')"
          using cnt lt by simp
        then show ?thesis using Some by (simp add: stored_devices_def creatable_def)
      qed
      have A: "is_xinput_pad E st' = is_xinput_pad E st"
        using blk by (rule is_xinput_pad_block_pads)
      show ?thesis
        using Cons.IH [OF le, of "evs @ evs'"]
        by (simp add: cb sd A cnt idx lst)
    qed
  qed
qed

lemma assign_indexes_length:
  "length (assign_indexes A nxt c ds idx) = length idx"
  by (induction ds arbitrary: nxt c idx) simp_all

lemma assign_indexes_outside:
  "i < c \<or> c + length ds \<le> i \<Longrightarrow> assign_indexes A nxt c ds idx ! i = idx ! i"
  by (induction ds arbitrary: nxt c idx) auto

lemma assign_indexes_nth:
  assumes "j < length ds" and "c + j < length idx"
  shows "assign_indexes A nxt c ds idx ! (c + j)
         = (if A (ds ! j) \<and> nxt + length (filter A (take j ds)) < 4
            then int (nxt + length (filter A (take j ds)))
            else idx ! (c + j))"
  using assms
proof (induction ds arbitrary: nxt c idx j)
  case Nil
  then show ?case by simp
next
  case (Cons d ds)
  show ?case
  proof (cases j)
    case 0
    then show ?thesis
      using Cons.prems by (simp add: assign_indexes_outside)
  next
    case (Suc k)
    have k: "k < length ds" using Cons.prems Suc by simp
    show ?thesis
    proof (cases "A d \<and> nxt < 4")
      case True
      have len: "Suc c + k < length (idx[c := int nxt])" using Cons.prems Suc by simp
      show ?thesis
        using Cons.IH [OF k len, of "Suc nxt"] True Suc by simp
    next
      case False
      have len: "Suc c + k < length idx" using Cons.prems Suc by simp
      show ?thesis
        using Cons.IH [OF k len, of nxt] False Suc by auto
    qed
  qed
qed


lemma reset_list_step:
  assumes "n < length xs"
  shows "(replicate n x @ drop n xs)[n := x] = replicate (Suc n) x @ drop (Suc n) xs"
proof -
  have "drop n xs = xs ! n # drop (Suc n) xs"
    using assms by (simp add: Cons_nth_drop_Suc)
  then have "(replicate n x @ drop n xs)[n := x] = replicate n x @ x # drop (Suc n) xs"
    by (simp add: list_update_append)
  then show ?thesis by (simp add: replicate_append_same)
qed

lemma init_reset_pad_fields:
  assumes "HAVE_XINPUT E"
  shows "g_xinput_pad_indexes (init_reset_pad E i s) = (g_xinput_pad_indexes s)[i := - 1]"
    and "g_joypad_cnt (init_reset_pad E i s) = g_joypad_cnt s"
    and "g_last_xinput_pad_idx (init_reset_pad E i s) = g_last_xinput_pad_idx s"
    and "g_xinput_block_pads (init_reset_pad E i s) = g_xinput_block_pads s"
  using assms by (simp_all add: init_reset_pad_def)

lemma init_reset_fold:
  assumes "HAVE_XINPUT E" and "n \<le> length (g_xinput_pad_indexes st)"
  shows "g_xinput_pad_indexes (fold (init_reset_pad E) [0 ..< n] st)
           = replicate n (- 1) @ drop n (g_xinput_pad_indexes st)
         \<and> g_joypad_cnt (fold (init_reset_pad E) [0 ..< n] st) = g_joypad_cnt st
         \<and> g_last_xinput_pad_idx (fold (init_reset_pad E) [0 ..< n] st) = g_last_xinput_pad_idx st
         \<and> g_xinput_block_pads (fold (init_reset_pad E) [0 ..< n] st) = g_xinput_block_pads st"
  using assms(2)
proof (induction n)
  case 0
  then show ?case by simp
next
  case (Suc n)
  then have n: "n < length (g_xinput_pad_indexes st)" by simp
  have ih: "g_xinput_pad_indexes (fold (init_reset_pad E) [0 ..< n] st)
           = replicate n (- 1) @ drop n (g_xinput_pad_indexes st)
         \<and> g_joypad_cnt (fold (init_reset_pad E) [0 ..< n] st) = g_joypad_cnt st
         \<and> g_last_xinput_pad_idx (fold (init_reset_pad E) [0 ..< n] st) = g_last_xinput_pad_idx st
         \<and> g_xinput_block_pads (fold (init_reset_pad E) [0 ..< n] st) = g_xinput_block_pads st"
    using Suc by simp
  show ?case
    using ih reset_list_step [OF n, of "- 1"]
    by (simp add: init_reset_pad_fields [OF assms(1)] replicate_append_same)
qed

text \<open>
  C4 as stated fails.  For a device flagged as an XInput pad the callback has already
  created the DirectInput device and stored its handle in the pad slot when it tests
  the flag; and of five flagged devices the fifth receives no XInput user number: its
  entry stays \<open>-1\<close>.
\<close>

theorem aliased_devices_counterexample:
  "is_xinput_pad example_env fresh_dinput (xbox_instance 10)
   \<and> joypad (g_pads (fst (snd (enum_joypad_cb example_env fresh_dinput (xbox_instance 10)))) ! 0)
       = Some 10
   \<and> g_xinput_pad_indexes
        (fst (snd (dinput_joypad_init example_env True
                     five_xbox_pads fresh_dinput)))
       = [0, 1, 2, 3, - 1, - 1]"
  by code_simp

text \<open>
  C4, amended.  For a device flagged as an XInput pad, the enumeration callback
  stores the created DirectInput handle (with name and identifiers) in the next pad
  slot, but makes no configuration call on the device and sends no connect
  notification; it writes the next XInput user number into the slot's index entry
  while that number is below 4.  After \<^verbatim>\<open>dinput_joypad_init\<close>, the device in the \<open>j\<close>-th
  filled slot has index \<open>k\<close>, the number of flagged devices before it, when it is
  flagged and \<open>k < 4\<close>, and \<open>-1\<close> otherwise; every other entry is \<open>-1\<close>.  So the first
  four flagged devices receive 0, 1, 2, 3 in enumeration order, without gap or
  repetition, and later flagged devices receive none.
\<close>

theorem aliased_devices_enumeration:
  assumes "HAVE_XINPUT E" and "length (g_xinput_pad_indexes st) = MAX_USERS E"
    and "g_joypad_cnt st \<le> MAX_USERS E"
  shows "(g_joypad_cnt sta < MAX_USERS E \<and> g_joypad_cnt sta < length (g_pads sta)
          \<and> CreateDevice E (guidInstance inst) = Some h \<and> is_xinput_pad E sta inst
          \<longrightarrow> (\<exists>st'. enum_joypad_cb E sta inst = (DIENUM_CONTINUE, st', [])
                  \<and> g_pads st' ! g_joypad_cnt sta
                      = (g_pads sta ! g_joypad_cnt sta)
                          \<lparr> joypad := Some h,
                            joy_name := Some (tszProductName inst),
                            joy_friendly_name := Some (tszInstanceName inst),
                            vid := Data1 (guidProduct inst) mod 0x10000,
                            pid := Data1 (guidProduct inst) div 0x10000 \<rparr>
                  \<and> g_joypad_cnt st' = Suc (g_joypad_cnt sta)
                  \<and> g_xinput_pad_indexes st'
                      = (if g_last_xinput_pad_idx sta < 4
                         then (g_xinput_pad_indexes sta)
                                [g_joypad_cnt sta := int (g_last_xinput_pad_idx sta)]
                         else g_xinput_pad_indexes sta)))
       \<and> g_joypad_cnt (fst (snd (dinput_joypad_init E True devices st)))
           = g_joypad_cnt st + length (stored_devices E (g_joypad_cnt st) devices)
       \<and> (\<forall>j < length (stored_devices E (g_joypad_cnt st) devices).
             g_xinput_pad_indexes (fst (snd (dinput_joypad_init E True devices st)))
               ! (g_joypad_cnt st + j)
             = (if is_xinput_pad E st (stored_devices E (g_joypad_cnt st) devices ! j)
                   \<and> aliased_before E st (stored_devices E (g_joypad_cnt st) devices) j < 4
                then int (aliased_before E st (stored_devices E (g_joypad_cnt st) devices) j)
                else - 1))
       \<and> (\<forall>i < MAX_USERS E.
             i < g_joypad_cnt st
             \<or> g_joypad_cnt st + length (stored_devices E (g_joypad_cnt st) devices) \<le> i
             \<longrightarrow> g_xinput_pad_indexes (fst (snd (dinput_joypad_init E True devices st))) ! i = - 1)"
proof -
  let ?c = "g_joypad_cnt st"
  let ?ds = "stored_devices E ?c devices"
  let ?st0 = "fold (init_reset_pad E) [0 ..< MAX_USERS E] (st\<lparr> g_last_xinput_pad_idx := 0 \<rparr>)"
  let ?st' = "fst (snd (dinput_joypad_init E True devices st))"
  have partA: "g_joypad_cnt sta < MAX_USERS E \<and> g_joypad_cnt sta < length (g_pads sta)
          \<and> CreateDevice E (guidInstance inst) = Some h \<and> is_xinput_pad E sta inst
          \<longrightarrow> (\<exists>st'. enum_joypad_cb E sta inst = (DIENUM_CONTINUE, st', [])
                  \<and> g_pads st' ! g_joypad_cnt sta
                      = (g_pads sta ! g_joypad_cnt sta)
                          \<lparr> joypad := Some h,
                            joy_name := Some (tszProductName inst),
                            joy_friendly_name := Some (tszInstanceName inst),
                            vid := Data1 (guidProduct inst) mod 0x10000,
                            pid := Data1 (guidProduct inst) div 0x10000 \<rparr>
                  \<and> g_joypad_cnt st' = Suc (g_joypad_cnt sta)
                  \<and> g_xinput_pad_indexes st'
                      = (if g_last_xinput_pad_idx sta < 4
                         then (g_xinput_pad_indexes sta)
                                [g_joypad_cnt sta := int (g_last_xinput_pad_idx sta)]
                         else g_xinput_pad_indexes sta))"
    by (simp add: enum_joypad_cb_def Let_def)
  have r: "g_xinput_pad_indexes ?st0 = replicate (MAX_USERS E) (- 1)
           \<and> g_joypad_cnt ?st0 = ?c \<and> g_last_xinput_pad_idx ?st0 = 0
           \<and> g_xinput_block_pads ?st0 = g_xinput_block_pads st"
    using init_reset_fold [OF assms(1), of "MAX_USERS E" "st\<lparr> g_last_xinput_pad_idx := 0 \<rparr>"]
      assms(2)
    by simp
  have A: "is_xinput_pad E ?st0 = is_xinput_pad E st"
    using r by (intro is_xinput_pad_block_pads) simp
  have le0: "g_joypad_cnt ?st0 \<le> MAX_USERS E" using r assms(3) by simp
  have st': "?st' = fst (EnumDevices E devices (?st0, []))"
    using assms(1) by (simp add: dinput_joypad_init_def split: prod.splits)
  have e: "g_xinput_pad_indexes ?st'
             = assign_indexes (is_xinput_pad E st) 0 ?c ?ds (replicate (MAX_USERS E) (- 1))
           \<and> g_joypad_cnt ?st' = ?c + length ?ds"
    using EnumDevices_indexes [OF le0, of devices "[]"] r A unfolding st' by simp
  have len: "length ?ds \<le> MAX_USERS E - ?c" by (simp add: stored_devices_def)
  have partB: "\<forall>j < length ?ds.
             g_xinput_pad_indexes ?st' ! (?c + j)
             = (if is_xinput_pad E st (?ds ! j) \<and> aliased_before E st ?ds j < 4
                then int (aliased_before E st ?ds j) else - 1)"
  proof (intro allI impI)
    fix j
    assume j: "j < length ?ds"
    then have b: "?c + j < length (replicate (MAX_USERS E) (- 1 :: int))" using len by simp
    have "?c + j < MAX_USERS E" using j len by simp
    then show "g_xinput_pad_indexes ?st' ! (?c + j)
             = (if is_xinput_pad E st (?ds ! j) \<and> aliased_before E st ?ds j < 4
                then int (aliased_before E st ?ds j) else - 1)"
      using assign_indexes_nth [OF j b, of "is_xinput_pad E st" 0] e
      by (simp add: aliased_before_def)
  qed
  have partC: "\<forall>i < MAX_USERS E. i < ?c \<or> ?c + length ?ds \<le> i
             \<longrightarrow> g_xinput_pad_indexes ?st' ! i = - 1"
    using e by (simp add: assign_indexes_outside)
  show ?thesis using partA e partB partC by blast
qed


theorem aliased_devices_enumeration_witness:
  "g_joypad_cnt (fst (snd (dinput_joypad_init example_env True five_xbox_pads fresh_dinput))) = 5
   \<and> g_xinput_pad_indexes
        (fst (snd (dinput_joypad_init example_env True five_xbox_pads fresh_dinput))) ! 3 = 3
   \<and> g_xinput_pad_indexes
        (fst (snd (dinput_joypad_init example_env True five_xbox_pads fresh_dinput))) ! 4 = - 1
   \<and> g_xinput_pad_indexes
        (fst (snd (dinput_joypad_init example_env True five_xbox_pads fresh_dinput))) ! 5 = - 1"
proof -
  have h1: "HAVE_XINPUT example_env" by (simp add: example_env_def)
  have h2: "length (g_xinput_pad_indexes fresh_dinput) = MAX_USERS example_env"
    by (simp add: example_env_def fresh_dinput_def)
  have h3: "g_joypad_cnt fresh_dinput \<le> MAX_USERS example_env"
    by (simp add: example_env_def fresh_dinput_def)
  have c0: "g_joypad_cnt fresh_dinput = 0" by (simp add: fresh_dinput_def)
  have m: "MAX_USERS example_env = 6" by (simp add: example_env_def)
  have sd: "stored_devices example_env 0 five_xbox_pads = five_xbox_pads" by code_simp
  have l: "length five_xbox_pads = 5" by (simp add: five_xbox_pads_def)
  have a3: "is_xinput_pad example_env fresh_dinput (five_xbox_pads ! 3)
            \<and> aliased_before example_env fresh_dinput five_xbox_pads 3 = 3" by code_simp
  have a4: "aliased_before example_env fresh_dinput five_xbox_pads 4 = 4" by code_simp
  note t = aliased_devices_enumeration [OF h1 h2 h3, where devices = five_xbox_pads]
  have t1: "g_joypad_cnt (fst (snd (dinput_joypad_init example_env True five_xbox_pads
              fresh_dinput))) = 5"
    using t by (simp add: c0 sd l)
  have t2: "\<forall>j < 5. g_xinput_pad_indexes
              (fst (snd (dinput_joypad_init example_env True five_xbox_pads fresh_dinput))) ! j
             = (if is_xinput_pad example_env fresh_dinput (five_xbox_pads ! j)
                   \<and> aliased_before example_env fresh_dinput five_xbox_pads j < 4
                then int (aliased_before example_env fresh_dinput five_xbox_pads j)
                else - 1)"
    using t by (simp add: c0 sd l)
  have t3: "\<forall>i < 6. 5 \<le> i \<longrightarrow> g_xinput_pad_indexes
              (fst (snd (dinput_joypad_init example_env True five_xbox_pads fresh_dinput))) ! i
             = - 1"
    using t by (simp add: c0 sd l m)
  show ?thesis using t1 t2 t3 a3 a4 by simp
qed

section \<open>Disconnect notifications while polling\<close>

text \<open>
  C8 at the failing input.  \<^verbatim>\<open>dinput_joypad_poll\<close> keeps no connection state: on every
  tick on which \<^verbatim>\<open>GetDeviceState\<close> reports lost input it sends a disconnect
  notification, so two such ticks in a row send two.  A pad whose \<^verbatim>\<open>Poll\<close> and
  \<^verbatim>\<open>Acquire\<close> fail is skipped without any notification.
\<close>

theorem dinput_poll_repeats_disconnect:
  "dinput_joypad_poll example_env one_dinput_pad (\<lambda>i. input_lost)
     @ dinput_joypad_poll example_env one_dinput_pad (\<lambda>i. input_lost)
   = [Autoconfigure_disconnect 0 (Some ''Gamepad''), Autoconfigure_disconnect 0 (Some ''Gamepad'')]
   \<and> dinput_joypad_poll example_env one_dinput_pad (\<lambda>i. unplugged) = []"
  by code_simp

text \<open>
  The XInput poll, in a build with DirectInput, does keep the state: a tick sends the
  disconnect notification for user \<open>i\<close> exactly when the cached flag says connected and
  the system says not connected, and it leaves the flags equal to what the system
  said.  A second tick with the same answers therefore sends no XInput notification.
\<close>


lemma xinput_poll_loop_dinput_build:
  assumes "HAVE_DINPUT B" and "distinct users" and "\<forall>i \<in> set users. i < length (g_xinput_states st)"
  shows "\<exists>st'. xinput_poll_loop B get_state users st evs
                 = Inr (Poll_done st' (evs @ xinput_disconnects B get_state st users))
           \<and> length (g_xinput_states st') = length (g_xinput_states st)
           \<and> (\<forall>i \<in> set users. connected (g_xinput_states st' ! i)
                                 = (fst (get_state i) \<noteq> ERROR_DEVICE_NOT_CONNECTED))
           \<and> (\<forall>k. k \<notin> set users \<longrightarrow> g_xinput_states st' ! k = g_xinput_states st ! k)"
  using assms(2,3)
proof (induction users arbitrary: st evs)
  case Nil
  then show ?case by (simp add: xinput_disconnects_def)
next
  case (Cons i rest)
  let ?new = "fst (get_state i) \<noteq> ERROR_DEVICE_NOT_CONNECTED"
  let ?s = "(g_xinput_states st ! i)\<lparr> xstate := snd (get_state i), connected := ?new \<rparr>"
  let ?st2 = "st\<lparr> g_xinput_states := (g_xinput_states st)[i := ?s] \<rparr>"
  let ?e = "if connected (g_xinput_states st ! i) \<and> \<not> ?new
            then [Autoconfigure_disconnect i (dinput_name B i)] else []"
  have i: "i < length (g_xinput_states st)" and ni: "i \<notin> set rest" and d: "distinct rest"
    using Cons.prems by simp_all
  have step: "xinput_poll_loop B get_state (i # rest) st evs
              = xinput_poll_loop B get_state rest ?st2 (evs @ ?e)"
  proof (cases "?new = connected (g_xinput_states st ! i)")
    case True
    then have "(g_xinput_states st ! i)\<lparr> xstate := snd (get_state i) \<rparr> = ?s"
      by (cases "g_xinput_states st ! i") auto
    then show ?thesis using True by (auto simp: Let_def)
  next
    case False
    then show ?thesis
      using assms(1) by (auto simp: Let_def xinput_joypad_name_def)
  qed
  have r: "\<forall>j \<in> set rest. j < length (g_xinput_states ?st2)" using Cons.prems by simp
  obtain st' where
    l: "xinput_poll_loop B get_state rest ?st2 (evs @ ?e)
          = Inr (Poll_done st' ((evs @ ?e) @ xinput_disconnects B get_state ?st2 rest))" and
    len: "length (g_xinput_states st') = length (g_xinput_states ?st2)" and
    c: "\<forall>j \<in> set rest. connected (g_xinput_states st' ! j)
                           = (fst (get_state j) \<noteq> ERROR_DEVICE_NOT_CONNECTED)" and
    u: "\<forall>k. k \<notin> set rest \<longrightarrow> g_xinput_states st' ! k = g_xinput_states ?st2 ! k"
    using Cons.IH [OF d r, of "evs @ ?e"] by blast
  have nth_same: "g_xinput_states ?st2 ! j = g_xinput_states st ! j" if "j \<in> set rest" for j
  proof -
    have "j \<noteq> i" using that ni by auto
    then show ?thesis by simp
  qed
  have same: "xinput_disconnects B get_state ?st2 rest = xinput_disconnects B get_state st rest"
    unfolding xinput_disconnects_def
    by (intro arg_cong [where f = concat] map_cong refl) (simp only: nth_same)
  have ev: "(evs @ ?e) @ xinput_disconnects B get_state ?st2 rest
            = evs @ xinput_disconnects B get_state st (i # rest)"
    unfolding same by (simp add: xinput_disconnects_def)
  have ci: "connected (g_xinput_states st' ! i) = ?new"
    using u ni i by simp
  have uk: "\<forall>k. k \<notin> set (i # rest) \<longrightarrow> g_xinput_states st' ! k = g_xinput_states st ! k"
    using u by simp
  show ?case
    unfolding step l ev using len c ci uk by simp
qed

lemma xinput_poll_notifies_transition_once:
  assumes "HAVE_DINPUT B" and "length (g_xinput_states st) = 4"
  shows "\<exists>st' st''.
           xinput_joypad_poll B get_state dinput_poll_events st
             = Inr (Poll_done st'
                      (xinput_disconnects B get_state st [0, 1, 2, 3] @ dinput_poll_events))
           \<and> xinput_joypad_poll B get_state dinput_poll_events st'
             = Inr (Poll_done st'' dinput_poll_events)"
proof -
  have d: "distinct [0, 1, 2, 3 :: nat]" by simp
  have b: "\<forall>i \<in> set [0, 1, 2, 3 :: nat]. i < length (g_xinput_states st)"
    using assms(2) by simp
  obtain st' where
    l1: "xinput_poll_loop B get_state [0, 1, 2, 3] st []
           = Inr (Poll_done st' ([] @ xinput_disconnects B get_state st [0, 1, 2, 3]))" and
    len: "length (g_xinput_states st') = length (g_xinput_states st)" and
    c: "\<forall>i \<in> set [0, 1, 2, 3 :: nat].
          connected (g_xinput_states st' ! i)
            = (fst (get_state i) \<noteq> ERROR_DEVICE_NOT_CONNECTED)"
    using xinput_poll_loop_dinput_build [OF assms(1) d b, of get_state "[]"] by blast
  have b': "\<forall>i \<in> set [0, 1, 2, 3 :: nat]. i < length (g_xinput_states st')"
    using len assms(2) by simp
  obtain st'' where
    l2: "xinput_poll_loop B get_state [0, 1, 2, 3] st' []
           = Inr (Poll_done st'' ([] @ xinput_disconnects B get_state st' [0, 1, 2, 3]))"
    using xinput_poll_loop_dinput_build [OF assms(1) d b', of get_state "[]"] by blast
  have none: "xinput_disconnects B get_state st' [0, 1, 2, 3] = []"
    using c by (simp add: xinput_disconnects_def)
  show ?thesis
    using l1 l2 none assms(1) by (simp add: xinput_joypad_poll_def)
qed

end
